theory Spec2Isabelle
  imports Complex_Main "HOL-Library.Sublist"
begin

section \<open>JavaScript numbers\<close>

text \<open>
  The plan generator computes with JavaScript numbers, which are IEEE 754 binary64 values.
  Two kinds of number occur in it:

  \<^item> integer-valued quantities (week counts, week indices, scores, percentages, hour and
    minute figures, list indices). They are modelled as \<open>int\<close>; binary64 represents every
    integer of magnitude below \<open>2 ^ 53\<close> exactly, so integer arithmetic on them is exact.
  \<^item> quantities with a fractional part (multipliers, weekly rates, projections, confidence
    before rounding, products with decimal literals). They are modelled as the rational
    value of the binary64 number, and every arithmetic operation on them rounds its exact
    result to 53 significant bits, ties to even (\<open>b64\<close>). A decimal literal such as
    \<^verbatim>\<open>1.35\<close> denotes \<open>b64 (135 / 100)\<close>, the binary64 number nearest to it.

  The exponent range is not bounded in the model: overflow to \<^verbatim>\<open>Infinity\<close>, subnormal
  numbers and \<^verbatim>\<open>NaN\<close> are not represented; the magnitudes of a study plan (scores up to
  1600, weeks, minutes, milliseconds of a date) stay far from them. Division by zero, which
  gives \<^verbatim>\<open>Infinity\<close> or \<^verbatim>\<open>NaN\<close> in JavaScript, is not modelled either: the divisors in
  the code are non-zero constants, a gap tested to be positive, a positive weekly rate
  (\<open>weeklyRate_pos\<close> below), the length of a phase that contains the week, and the
  effective week count, which is at least 1.
\<close>

text \<open>\<open>expo x\<close> is the binary exponent of a positive rational: \<open>2 powi expo x \<le> x < 2 powi (expo x + 1)\<close>.\<close>

function expo :: "rat \<Rightarrow> int" where
  "expo x = (if x \<le> 0 then 0
             else if 2 \<le> x then expo (x / 2) + 1
             else if x < 1 then expo (2 * x) - 1
             else 0)"
  by pat_completeness auto
termination
proof (relation "measure (\<lambda>x. 2 * nat \<lceil>1 / x\<rceil> + nat \<lfloor>x\<rfloor>)")
  show "wf (measure (\<lambda>x::rat. 2 * nat \<lceil>1 / x\<rceil> + nat \<lfloor>x\<rfloor>))" by simp
next
  fix x :: rat
  assume a: "\<not> x \<le> 0" "2 \<le> x"
  have c1: "\<lceil>1 / x\<rceil> = 1" using a by (simp add: ceiling_eq_iff)
  have c2: "\<lceil>1 / (x / 2)\<rceil> = 1" using a by (simp add: ceiling_eq_iff)
  have "\<lfloor>x / 2\<rfloor> < \<lfloor>x\<rfloor>" using a by (simp add: floor_less_iff) linarith
  moreover have "0 \<le> \<lfloor>x / 2\<rfloor>" using a by simp
  ultimately have "nat \<lfloor>x / 2\<rfloor> < nat \<lfloor>x\<rfloor>" by linarith
  then show "(x / 2, x) \<in> measure (\<lambda>x. 2 * nat \<lceil>1 / x\<rceil> + nat \<lfloor>x\<rfloor>)"
    using c1 c2 by simp
next
  fix x :: rat
  assume a: "\<not> x \<le> 0" "\<not> 2 \<le> x" "x < 1"
  have f0: "\<lfloor>x\<rfloor> = 0" using a by (simp add: floor_eq_iff)
  have f1: "\<lfloor>2 * x\<rfloor> \<le> 1" using a by (simp add: floor_le_iff)
  define y where "y = 1 / x"
  have y1: "1 < y" using a by (simp add: y_def)
  have c: "2 \<le> \<lceil>y\<rceil>" using y1 by linarith
  define k where "k = (\<lceil>y\<rceil> + 1) div 2"
  have "\<lceil>y\<rceil> \<le> 2 * k" unfolding k_def by linarith
  then have "(of_int \<lceil>y\<rceil> :: rat) \<le> of_int (2 * k)"
    by (simp only: of_int_le_iff)
  then have "(of_int \<lceil>y\<rceil> :: rat) \<le> 2 * of_int k" by simp
  with le_of_int_ceiling [of y] have "y / 2 \<le> of_int k" by linarith
  then have d: "\<lceil>y / 2\<rceil> \<le> (\<lceil>y\<rceil> + 1) div 2" by (simp only: ceiling_le_iff k_def)
  have e: "1 / (2 * x) = y / 2" by (simp add: y_def)
  have "2 * nat \<lceil>y / 2\<rceil> + nat \<lfloor>2 * x\<rfloor> < 2 * nat \<lceil>y\<rceil> + nat \<lfloor>x\<rfloor>"
  proof (cases "\<lceil>y\<rceil> = 2")
    case True
    with d have "\<lceil>y / 2\<rceil> \<le> 1" by simp
    with True f0 f1 show ?thesis by linarith
  next
    case False
    with c have c3: "3 \<le> \<lceil>y\<rceil>" by linarith
    have d2: "2 * \<lceil>y / 2\<rceil> \<le> \<lceil>y\<rceil> + 1" using d by linarith
    show ?thesis using f0 f1 c3 d2 by linarith
  qed
  then show "(2 * x, x) \<in> measure (\<lambda>x. 2 * nat \<lceil>1 / x\<rceil> + nat \<lfloor>x\<rfloor>)"
    by (simp only: in_measure e y_def [symmetric])
qed

declare expo.simps [simp del]

text \<open>Rounding a rational to the nearest integer, ties to the even one.\<close>

definition round_even :: "rat \<Rightarrow> int" where
  "round_even q = (let f = \<lfloor>q\<rfloor>; d = q - of_int f in
     if d < 1 / 2 then f else if 1 / 2 < d then f + 1 else if even f then f else f + 1)"

text \<open>
  \<open>b64 x\<close> is the binary64 number nearest to \<open>x\<close>: the significand is scaled to
  \<open>[2 ^ 52, 2 ^ 53)\<close> by the unit in the last place \<open>u\<close> and rounded there.
\<close>

definition b64 :: "rat \<Rightarrow> rat" where
  "b64 x = (if x = 0 then 0
            else (let u = 2 powi (expo \<bar>x\<bar> - 52) in sgn x * of_int (round_even (\<bar>x\<bar> / u)) * u))"

text \<open>The operators \<^verbatim>\<open>+ - * /\<close> on numbers, and the \<^verbatim>\<open>Math\<close> functions the code calls.\<close>

definition js_add :: "rat \<Rightarrow> rat \<Rightarrow> rat" where
  "js_add a b = b64 (a + b)"

definition js_sub :: "rat \<Rightarrow> rat \<Rightarrow> rat" where
  "js_sub a b = b64 (a - b)"

definition js_mul :: "rat \<Rightarrow> rat \<Rightarrow> rat" where
  "js_mul a b = b64 (a * b)"

definition js_div :: "rat \<Rightarrow> rat \<Rightarrow> rat" where
  "js_div a b = b64 (a / b)"

definition Math_floor :: "rat \<Rightarrow> int" where
  "Math_floor x = \<lfloor>x\<rfloor>"

definition Math_ceil :: "rat \<Rightarrow> int" where
  "Math_ceil x = \<lceil>x\<rceil>"

text \<open>\<^verbatim>\<open>Math.round\<close> rounds to the nearest integer, a tie going up.\<close>

definition Math_round :: "rat \<Rightarrow> int" where
  "Math_round x = \<lfloor>x + 1 / 2\<rfloor>"

text \<open>Printing an integer inside a template literal.\<close>

fun showNat :: "nat \<Rightarrow> string" where
  "showNat n = (if n < 10 then [''0123456789'' ! n]
                else showNat (n div 10) @ [''0123456789'' ! (n mod 10)])"

declare showNat.simps [simp del]

definition numberToString :: "int \<Rightarrow> string" where
  "numberToString i = (if i < 0 then ''-'' @ showNat (nat (- i)) else showNat (nat i))"

text \<open>\<^verbatim>\<open>Array.prototype.slice(start, end)\<close>, negative indices counting from the end.\<close>

definition slice :: "'a list \<Rightarrow> int \<Rightarrow> int \<Rightarrow> 'a list" where
  "slice xs s e =
     (let n = int (length xs);
          s' = (if s < 0 then max 0 (n + s) else min s n);
          e' = (if e < 0 then max 0 (n + e) else min e n)
      in take (nat (e' - s')) (drop (nat s') xs))"

text \<open>\<^verbatim>\<open>Array.prototype.indexOf\<close>: the first position of an element, \<open>-1\<close> when absent.\<close>

fun indexOf :: "'a list \<Rightarrow> 'a \<Rightarrow> int" where
  "indexOf [] x = - 1"
| "indexOf (y # ys) x =
     (if y = x then 0 else (let i = indexOf ys x in if i < 0 then - 1 else i + 1))"

text \<open>\<^verbatim>\<open>String.prototype.includes\<close>: the argument occurs as a contiguous substring.\<close>

definition str_includes :: "string \<Rightarrow> string \<Rightarrow> bool" where
  "str_includes s t = sublist t s"

section \<open>Data model\<close>

text \<open>
  String-literal union types are datatypes. Record fields carry a prefix naming their
  interface, since several interfaces share field names (\<^verbatim>\<open>name\<close>, \<^verbatim>\<open>focus\<close>,
  \<^verbatim>\<open>duration\<close>, \<^verbatim>\<open>type\<close>). Dates are milliseconds since the epoch.
\<close>

datatype Difficulty = DSmall | DModerate | DSignificant | DLarge | DVeryLarge

datatype Intensity = Light | Moderate | Intensive | VeryIntensive

datatype PlanType = Cram | Short | Standard | Extended | LongTerm

datatype RecommendationType = IncreaseIntensity | AddTutoring | ExtendTimeline | AdjustTarget

datatype Priority = High | Medium | Low

datatype ActivityType = Diagnostic | Lesson | Practice | Review | Test | Rest | TutoringActivity

text \<open>The type \<^verbatim>\<open>1 | 2 | 3 | 4\<close> of \<^verbatim>\<open>tutoringSessionsPerWeek\<close>.\<close>

datatype Sessions = One | Two | Three | Four

fun sessionsNumber :: "Sessions \<Rightarrow> int" where
  "sessionsNumber One = 1"
| "sessionsNumber Two = 2"
| "sessionsNumber Three = 3"
| "sessionsNumber Four = 4"

text \<open>The cast \<^verbatim>\<open>as 1 | 2 | 3 | 4\<close>; the code applies it to values between 2 and 4 only.\<close>

definition asSessions :: "int \<Rightarrow> Sessions" where
  "asSessions n = (if n = 1 then One else if n = 2 then Two else if n = 3 then Three else Four)"

text \<open>Values of a \<^verbatim>\<open>Record<string, unknown>\<close>.\<close>

datatype JsValue = JNum rat | JStr string

record UserInput =
  in_testDate :: int
  in_currentScore :: int
  in_targetScore :: int
  in_tutoringSessionsPerWeek :: Sessions

record Timeline =
  tl_startDate :: int
  tl_testDate :: int
  tl_totalDays :: int
  tl_totalWeeks :: int
  tl_effectiveWeeks :: int

record ScoreGap =
  sg_totalGap :: int
  sg_isAchievable :: bool
  sg_difficulty :: Difficulty

record Recommendation =
  rec_type :: RecommendationType
  rec_priority :: Priority
  rec_impact :: rat
  rec_message :: string
  rec_details :: "(string \<times> JsValue) list"

record FeasibilityAssessment =
  fa_isFeasible :: bool
  fa_confidence :: int
  fa_projectedImprovement :: rat
  fa_shortfall :: "rat option"
  fa_recommendations :: "Recommendation list"

record ContentDistribution =
  learning :: int
  practice :: int
  testing :: int
  review :: int

record Phase =
  ph_name :: string
  ph_startWeek :: int
  ph_endWeek :: int
  ph_focus :: string
  ph_objectives :: "string list"
  ph_weeklyHours :: int
  ph_contentDistribution :: ContentDistribution

record Activity =
  act_type :: ActivityType
  act_name :: string
  act_duration :: int
  act_description :: string

record TutoringSession =
  ts_sessionNumber :: int
  ts_duration :: int
  ts_focus :: "string list"
  ts_suggestedTopics :: "string list"

record WeeklyPlan =
  wp_weekNumber :: int
  wp_phase :: string
  wp_focus :: "string list"
  wp_activities :: "Activity list"
  wp_tutoringSessions :: "TutoringSession list"
  wp_targetHours :: int
  wp_targetProblems :: int
  wp_totalHoursWithTutoring :: rat

record TutoringSummary =
  tu_sessionsPerWeek :: Sessions
  tu_totalSessions :: int
  tu_hoursPerWeek :: rat
  tu_multiplierApplied :: rat

record StudyPlan =
  sp_createdAt :: int
  sp_startDate :: int
  sp_testDate :: int
  sp_totalWeeks :: int
  sp_startingScore :: int
  sp_targetScore :: int
  sp_projectedScore :: int
  sp_scoreGap :: ScoreGap
  sp_planType :: PlanType
  sp_phases :: "Phase list"
  sp_weeklyPlans :: "WeeklyPlan list"
  sp_feasibility :: FeasibilityAssessment
  sp_studyIntensity :: Intensity
  sp_weeklyHoursRecommended :: rat
  sp_tutoring :: TutoringSummary

section \<open>Constants\<close>

fun WEEKLY_IMPROVEMENT_RATES :: "Intensity \<Rightarrow> rat" where
  "WEEKLY_IMPROVEMENT_RATES Light = 8"
| "WEEKLY_IMPROVEMENT_RATES Moderate = 15"
| "WEEKLY_IMPROVEMENT_RATES Intensive = 22"
| "WEEKLY_IMPROVEMENT_RATES VeryIntensive = 30"

fun MAX_IMPROVEMENTS :: "Intensity \<Rightarrow> rat" where
  "MAX_IMPROVEMENTS Light = 150"
| "MAX_IMPROVEMENTS Moderate = 250"
| "MAX_IMPROVEMENTS Intensive = 350"
| "MAX_IMPROVEMENTS VeryIntensive = 450"

fun WEEKLY_HOURS :: "Intensity \<Rightarrow> rat" where
  "WEEKLY_HOURS Light = 3"
| "WEEKLY_HOURS Moderate = b64 (65 / 10)"
| "WEEKLY_HOURS Intensive = b64 (105 / 10)"
| "WEEKLY_HOURS VeryIntensive = b64 (165 / 10)"

fun TUTORING_MULTIPLIERS :: "Sessions \<Rightarrow> rat" where
  "TUTORING_MULTIPLIERS One = b64 (120 / 100)"
| "TUTORING_MULTIPLIERS Two = b64 (130 / 100)"
| "TUTORING_MULTIPLIERS Three = b64 (135 / 100)"
| "TUTORING_MULTIPLIERS Four = b64 (140 / 100)"

definition TUTORING_SESSION_DURATION :: int where
  "TUTORING_SESSION_DURATION = 60"

text \<open>The keys of the tables above are the strings of the intensity tiers.\<close>

fun intensityName :: "Intensity \<Rightarrow> string" where
  "intensityName Light = ''light''"
| "intensityName Moderate = ''moderate''"
| "intensityName Intensive = ''intensive''"
| "intensityName VeryIntensive = ''very_intensive''"

section \<open>Timeline and score gap\<close>

text \<open>
  \<^verbatim>\<open>calculateTimeline\<close> reads the clock and normalises both dates to local midnight; the
  two normalised timestamps are its arguments here.
\<close>

definition calculateTimeline :: "int \<Rightarrow> int \<Rightarrow> Timeline" where
  "calculateTimeline startDate testDateNormalized =
     (let totalDays = Math_ceil (js_div (of_int (testDateNormalized - startDate))
                                        (of_int (1000 * 60 * 60 * 24)));
          totalWeeks = Math_floor (js_div (of_int totalDays) 7);
          effectiveWeeks = max 1 (totalWeeks - 1)
      in \<lparr> tl_startDate = startDate,
           tl_testDate = testDateNormalized,
           tl_totalDays = totalDays,
           tl_totalWeeks = totalWeeks,
           tl_effectiveWeeks = effectiveWeeks \<rparr>)"

definition calculateScoreGap :: "int \<Rightarrow> int \<Rightarrow> ScoreGap" where
  "calculateScoreGap currentScore targetScore =
     (let totalGap = max 0 (targetScore - currentScore);
          difficulty =
            (if totalGap \<le> 100 then DSmall
             else if totalGap \<le> 150 then DModerate
             else if totalGap \<le> 250 then DSignificant
             else if totalGap \<le> 350 then DLarge
             else DVeryLarge)
      in \<lparr> sg_totalGap = totalGap,
           sg_isAchievable = (totalGap \<le> 500),
           sg_difficulty = difficulty \<rparr>)"

section \<open>Plan type selection\<close>

definition selectPlanType :: "int \<Rightarrow> PlanType" where
  "selectPlanType weeks =
     (if weeks \<le> 4 then Cram
      else if weeks \<le> 8 then Short
      else if weeks \<le> 16 then Standard
      else if weeks \<le> 32 then Extended
      else LongTerm)"

text \<open>The order \<^verbatim>\<open>cram < short < standard < extended < long_term\<close> of the plan types.\<close>

fun planRank :: "PlanType \<Rightarrow> nat" where
  "planRank Cram = 0"
| "planRank Short = 1"
| "planRank Standard = 2"
| "planRank Extended = 3"
| "planRank LongTerm = 4"

section \<open>Feasibility assessment\<close>

definition intensityLevels :: "Intensity list" where
  "intensityLevels = [Light, Moderate, Intensive, VeryIntensive]"

text \<open>The local table \<^verbatim>\<open>hoursDesc\<close>; it has no entry for \<^verbatim>\<open>light\<close>.\<close>

fun hoursDesc :: "Intensity \<Rightarrow> string option" where
  "hoursDesc Light = None"
| "hoursDesc Moderate = Some ''5-8 hours/week''"
| "hoursDesc Intensive = Some ''9-12 hours/week''"
| "hoursDesc VeryIntensive = Some ''13-20 hours/week''"

text \<open>
  The loop over the tiers above the current one. It pushes at most one recommendation and
  breaks at the first tier whose projection reaches the gap; the argument is the list of
  tiers still to be visited.
\<close>

fun increaseIntensityLoop ::
  "int \<Rightarrow> int \<Rightarrow> rat \<Rightarrow> rat \<Rightarrow> Intensity list \<Rightarrow> Recommendation list" where
  "increaseIntensityLoop weeks gap tutoringMultiplier projectedImprovement [] = []"
| "increaseIntensityLoop weeks gap tutoringMultiplier projectedImprovement (newIntensity # rest) =
     (let newWeekly = js_mul (WEEKLY_IMPROVEMENT_RATES newIntensity) tutoringMultiplier;
          newMax = js_mul (MAX_IMPROVEMENTS newIntensity) tutoringMultiplier;
          newProjection = min (js_mul (of_int weeks) newWeekly) newMax
      in if of_int gap \<le> newProjection
         then [\<lparr> rec_type = IncreaseIntensity,
                 rec_priority = High,
                 rec_impact = js_sub newProjection projectedImprovement,
                 rec_message = ''Increase async study time to '' @
                   (case hoursDesc newIntensity of Some d \<Rightarrow> d | None \<Rightarrow> ''undefined''),
                 rec_details = [(''newIntensity'', JStr (intensityName newIntensity)),
                                (''projectedImprovement'', JNum newProjection)] \<rparr>]
         else increaseIntensityLoop weeks gap tutoringMultiplier projectedImprovement rest)"

text \<open>
  The three blocks of \<^verbatim>\<open>assessFeasibility\<close> that follow the loop, each under its comment
  in the source: "Add more tutoring sessions (if not already at max)", "Extend timeline"
  and "Adjust target". The first pushes at most one recommendation, the other two exactly
  one each.
\<close>

definition addTutoringRecommendation ::
  "int \<Rightarrow> int \<Rightarrow> rat \<Rightarrow> rat \<Rightarrow> rat \<Rightarrow> Sessions \<Rightarrow> Recommendation list" where
  "addTutoringRecommendation weeks gap baseWeeklyRate baseMaxImprovement projectedImprovement
       tutoringSessionsPerWeek =
     (if sessionsNumber tutoringSessionsPerWeek < 4 then
        (let higherTutoring = min 4 (sessionsNumber tutoringSessionsPerWeek + 1);
             higherMultiplier = TUTORING_MULTIPLIERS (asSessions higherTutoring);
             withMoreTutoring =
               min (js_mul (js_mul (of_int weeks) baseWeeklyRate) higherMultiplier)
                   (js_mul baseMaxImprovement higherMultiplier)
         in if of_int gap \<le> withMoreTutoring
            then [\<lparr> rec_type = AddTutoring,
                    rec_priority = High,
                    rec_impact = js_sub withMoreTutoring projectedImprovement,
                    rec_message = ''Increase tutoring to '' @
                      numberToString higherTutoring @ ''x per week'',
                    rec_details =
                      [(''currentSessions'',
                          JNum (of_int (sessionsNumber tutoringSessionsPerWeek))),
                       (''recommendedSessions'', JNum (of_int higherTutoring)),
                       (''projectedWithMoreTutoring'', JNum withMoreTutoring)] \<rparr>]
            else [])
      else [])"

definition extendTimelineRecommendation :: "rat \<Rightarrow> rat \<Rightarrow> Recommendation" where
  "extendTimelineRecommendation shortfall weeklyRate =
     (let additionalWeeksNeeded = Math_ceil (js_div shortfall weeklyRate)
      in \<lparr> rec_type = ExtendTimeline,
           rec_priority = Medium,
           rec_impact = shortfall,
           rec_message = ''Consider a test date '' @
             numberToString additionalWeeksNeeded @ '' weeks later'',
           rec_details = [(''additionalWeeks'', JNum (of_int additionalWeeksNeeded))] \<rparr>)"

definition adjustTargetRecommendation :: "rat \<Rightarrow> rat \<Rightarrow> Recommendation" where
  "adjustTargetRecommendation shortfall projectedImprovement =
     (let currentScore = 1000;
          achievableScore =
            Math_round (js_div (js_add projectedImprovement currentScore) 10) * 10
      in \<lparr> rec_type = AdjustTarget,
           rec_priority = Low,
           rec_impact = shortfall,
           rec_message = ''Based on timeline, a target of '' @
             numberToString achievableScore @ '' is more achievable'',
           rec_details = [(''achievableScore'', JNum (of_int achievableScore))] \<rparr>)"

definition assessFeasibility ::
  "Timeline \<Rightarrow> ScoreGap \<Rightarrow> Intensity \<Rightarrow> Sessions \<Rightarrow> FeasibilityAssessment" where
  "assessFeasibility timeline scoreGap intensity tutoringSessionsPerWeek =
     (let weeks = tl_effectiveWeeks timeline;
          gap = sg_totalGap scoreGap;
          baseWeeklyRate = WEEKLY_IMPROVEMENT_RATES intensity;
          baseMaxImprovement = MAX_IMPROVEMENTS intensity;
          tutoringMultiplier = TUTORING_MULTIPLIERS tutoringSessionsPerWeek;
          weeklyRate = js_mul baseWeeklyRate tutoringMultiplier;
          maxImprovement = js_mul baseMaxImprovement tutoringMultiplier;
          rawProjection = js_mul (of_int weeks) weeklyRate;
          projectedImprovement = min rawProjection maxImprovement
      in if of_int gap \<le> projectedImprovement then
           (let buffer = js_sub projectedImprovement (of_int gap);
                confidence = (if 0 < gap
                              then min 95 (js_add 60 (js_mul (js_div buffer (of_int gap)) 35))
                              else 95)
            in \<lparr> fa_isFeasible = True,
                 fa_confidence = Math_round confidence,
                 fa_projectedImprovement = projectedImprovement,
                 fa_shortfall = None,
                 fa_recommendations = [] \<rparr>)
         else
           (let shortfall = js_sub (of_int gap) projectedImprovement;
                confidence = max 20 (js_sub 60 (js_div shortfall 10));
                currentIdx = indexOf intensityLevels intensity
            in \<lparr> fa_isFeasible = False,
                 fa_confidence = Math_round confidence,
                 fa_projectedImprovement = projectedImprovement,
                 fa_shortfall = Some shortfall,
                 fa_recommendations =
                   increaseIntensityLoop weeks gap tutoringMultiplier projectedImprovement
                     (drop (nat (currentIdx + 1)) intensityLevels)
                   @ addTutoringRecommendation weeks gap baseWeeklyRate baseMaxImprovement
                       projectedImprovement tutoringSessionsPerWeek
                   @ [extendTimelineRecommendation shortfall weeklyRate,
                      adjustTargetRecommendation shortfall projectedImprovement] \<rparr>))"

section \<open>Intensity recommendation\<close>

definition recommendIntensity :: "int \<Rightarrow> int \<Rightarrow> Sessions \<Rightarrow> Intensity \<times> rat" where
  "recommendIntensity weeks scoreGap tutoringSessionsPerWeek =
     (let tutoringMultiplier = TUTORING_MULTIPLIERS tutoringSessionsPerWeek;
          requiredWeeklyGain = js_div (of_int scoreGap) (of_int weeks);
          effectiveGainNeeded = js_div requiredWeeklyGain tutoringMultiplier
      in if effectiveGainNeeded \<le> 8 then (Light, WEEKLY_HOURS Light)
         else if effectiveGainNeeded \<le> 15 then (Moderate, WEEKLY_HOURS Moderate)
         else if effectiveGainNeeded \<le> 22 then (Intensive, WEEKLY_HOURS Intensive)
         else (VeryIntensive, WEEKLY_HOURS VeryIntensive))"

section \<open>Phase generation\<close>

text \<open>The operator \<^verbatim>\<open>||\<close> on numbers: the right operand when the left one is \<open>0\<close>.\<close>

definition js_or :: "int \<Rightarrow> int \<Rightarrow> int" where
  "js_or a b = (if a = 0 then b else a)"

definition generateCramPhases :: "int \<Rightarrow> Phase list" where
  "generateCramPhases weeks =
     (if weeks \<le> 2 then
        [\<lparr> ph_name = ''Diagnostic + High-Impact Strategies'',
           ph_startWeek = 1,
           ph_endWeek = 1,
           ph_focus = ''Identify weaknesses and learn key strategies'',
           ph_objectives = [''Complete full diagnostic test'',
                              ''Learn top 5 math rules'',
                              ''Learn top 5 R&W rules'',
                              ''Master elimination technique''],
           ph_weeklyHours = 15,
           ph_contentDistribution =
             \<lparr> learning = 40, practice = 30, testing = 20, review = 10 \<rparr> \<rparr>,
         \<lparr> ph_name = ''Intensive Practice + Final Prep'',
           ph_startWeek = 2,
           ph_endWeek = weeks,
           ph_focus = ''Targeted practice and test simulation'',
           ph_objectives = [''Complete 1 full practice test'',
                              ''Focus on top 3 weak areas'',
                              ''Pacing drills'',
                              ''Light review before test day''],
           ph_weeklyHours = 12,
           ph_contentDistribution =
             \<lparr> learning = 20, practice = 40, testing = 30, review = 10 \<rparr> \<rparr>]
      else
        [\<lparr> ph_name = ''Assessment + Foundation'',
           ph_startWeek = 1,
           ph_endWeek = Math_ceil (js_div (of_int weeks) 2),
           ph_focus = ''Diagnostic and core content mastery'',
           ph_objectives = [''Complete diagnostic test'',
                              ''Master foundational math concepts'',
                              ''Master grammar rules'',
                              ''Learn SAT strategies''],
           ph_weeklyHours = 12,
           ph_contentDistribution =
             \<lparr> learning = 40, practice = 30, testing = 15, review = 15 \<rparr> \<rparr>,
         \<lparr> ph_name = ''Polish + Peak'',
           ph_startWeek = Math_ceil (js_div (of_int weeks) 2) + 1,
           ph_endWeek = weeks,
           ph_focus = ''Practice tests and final preparation'',
           ph_objectives = [''Complete 2 full practice tests'',
                              ''Target weak areas'',
                              ''Time management mastery'',
                              ''Pre-test preparation''],
           ph_weeklyHours = 10,
           ph_contentDistribution =
             \<lparr> learning = 15, practice = 35, testing = 40, review = 10 \<rparr> \<rparr>])"

definition generateShortPhases :: "int \<Rightarrow> Phase list" where
  "generateShortPhases weeks =
     (let phase1End = Math_floor (js_mul (of_int weeks) (b64 (3 / 10)));
          phase2End = Math_floor (js_mul (of_int weeks) (b64 (6 / 10)));
          phase3End = Math_floor (js_mul (of_int weeks) (b64 (85 / 100)))
      in [\<lparr> ph_name = ''Foundation'',
           ph_startWeek = 1,
           ph_endWeek = js_or phase1End 1,
           ph_focus = ''Diagnosis and core content'',
           ph_objectives = [''Complete full diagnostic test'',
                              ''Master algebra basics'',
                              ''Master grammar fundamentals'',
                              ''Build reading comprehension strategies''],
           ph_weeklyHours = 10,
           ph_contentDistribution =
             \<lparr> learning = 40, practice = 30, testing = 15, review = 15 \<rparr> \<rparr>,
         \<lparr> ph_name = ''Building'',
           ph_startWeek = js_or phase1End 1 + 1,
           ph_endWeek = js_or phase2End 3,
           ph_focus = ''Skill development'',
           ph_objectives = [''Intermediate math topics'',
                              ''Advanced grammar'',
                              ''Evidence-based reading'',
                              ''Strategy application''],
           ph_weeklyHours = 12,
           ph_contentDistribution =
             \<lparr> learning = 30, practice = 40, testing = 15, review = 15 \<rparr> \<rparr>,
         \<lparr> ph_name = ''Practice'',
           ph_startWeek = js_or phase2End 3 + 1,
           ph_endWeek = js_or phase3End (weeks - 1),
           ph_focus = ''Application and testing'',
           ph_objectives = [''Full practice tests'',
                              ''Error analysis'',
                              ''Pacing drills'',
                              ''Weak area targeting''],
           ph_weeklyHours = 12,
           ph_contentDistribution =
             \<lparr> learning = 20, practice = 40, testing = 30, review = 10 \<rparr> \<rparr>,
         \<lparr> ph_name = ''Peak'',
           ph_startWeek = js_or phase3End (weeks - 1) + 1,
           ph_endWeek = weeks,
           ph_focus = ''Final preparation'',
           ph_objectives = [''Light review'',
                              ''Final practice test'',
                              ''Confidence building'',
                              ''Rest before test day''],
           ph_weeklyHours = 8,
           ph_contentDistribution =
             \<lparr> learning = 10, practice = 30, testing = 40, review = 20 \<rparr> \<rparr>])"

definition generateStandardPhases :: "int \<Rightarrow> Phase list" where
  "generateStandardPhases weeks =
     [\<lparr> ph_name = ''Assessment'',
        ph_startWeek = 1,
        ph_endWeek = 1,
        ph_focus = ''Comprehensive diagnostic and planning'',
        ph_objectives = [''Full proctored diagnostic test'',
                           ''Detailed score analysis'',
                           ''Learning style assessment'',
                           ''Goal setting''],
        ph_weeklyHours = 8,
        ph_contentDistribution =
          \<lparr> learning = 20, practice = 20, testing = 50, review = 10 \<rparr> \<rparr>,
      \<lparr> ph_name = ''Foundation'',
        ph_startWeek = 2,
        ph_endWeek = Math_ceil (js_mul (of_int weeks) (b64 (25 / 100))),
        ph_focus = ''Core content mastery'',
        ph_objectives = [''Algebra fundamentals'',
                           ''Grammar rules review'',
                           ''Reading comprehension basics'',
                           ''Question type identification''],
        ph_weeklyHours = 10,
        ph_contentDistribution =
          \<lparr> learning = 40, practice = 35, testing = 10, review = 15 \<rparr> \<rparr>,
      \<lparr> ph_name = ''Development'',
        ph_startWeek = Math_ceil (js_mul (of_int weeks) (b64 (25 / 100))) + 1,
        ph_endWeek = Math_ceil (js_mul (of_int weeks) (b64 (55 / 100))),
        ph_focus = ''Full content coverage'',
        ph_objectives = [''Advanced math topics'',
                           ''Complex passages'',
                           ''Rhetoric and synthesis'',
                           ''Strategy development''],
        ph_weeklyHours = 12,
        ph_contentDistribution =
          \<lparr> learning = 35, practice = 40, testing = 15, review = 10 \<rparr> \<rparr>,
      \<lparr> ph_name = ''Strategy'',
        ph_startWeek = Math_ceil (js_mul (of_int weeks) (b64 (55 / 100))) + 1,
        ph_endWeek = Math_ceil (js_mul (of_int weeks) (b64 (80 / 100))),
        ph_focus = ''Strategy and application'',
        ph_objectives = [''Test-taking strategies'',
                           ''Time management'',
                           ''Elimination techniques'',
                           ''Calculator/Desmos mastery''],
        ph_weeklyHours = 12,
        ph_contentDistribution =
          \<lparr> learning = 25, practice = 40, testing = 25, review = 10 \<rparr> \<rparr>,
      \<lparr> ph_name = ''Peak'',
        ph_startWeek = Math_ceil (js_mul (of_int weeks) (b64 (80 / 100))) + 1,
        ph_endWeek = weeks,
        ph_focus = ''Testing and final prep'',
        ph_objectives = [''Multiple full practice tests'',
                           ''Error pattern analysis'',
                           ''Confidence building'',
                           ''Pre-test routine''],
        ph_weeklyHours = 10,
        ph_contentDistribution =
          \<lparr> learning = 10, practice = 35, testing = 45, review = 10 \<rparr> \<rparr>]"

definition generateExtendedPhases :: "int \<Rightarrow> Phase list" where
  "generateExtendedPhases weeks =
     [\<lparr> ph_name = ''Assessment & Foundation'',
        ph_startWeek = 1,
        ph_endWeek = Math_ceil (js_mul (of_int weeks) (b64 (15 / 100))),
        ph_focus = ''Comprehensive diagnosis and foundation building'',
        ph_objectives = [''Full diagnostic testing'',
                           ''Learning style determination'',
                           ''Core Math: Numbers, Algebra I'',
                           ''Core R&W: Grammar, Basic Reading''],
        ph_weeklyHours = 8,
        ph_contentDistribution =
          \<lparr> learning = 45, practice = 30, testing = 15, review = 10 \<rparr> \<rparr>,
      \<lparr> ph_name = ''Core Skill Building'',
        ph_startWeek = Math_ceil (js_mul (of_int weeks) (b64 (15 / 100))) + 1,
        ph_endWeek = Math_ceil (js_mul (of_int weeks) (b64 (35 / 100))),
        ph_focus = ''Content breadth'',
        ph_objectives = [''Math: Algebra II, Geometry Basics'',
                           ''R&W: Evidence, Inference, Structure'',
                           ''Strategy: Basic elimination'',
                           ''Regular practice tests''],
        ph_weeklyHours = 10,
        ph_contentDistribution =
          \<lparr> learning = 35, practice = 40, testing = 15, review = 10 \<rparr> \<rparr>,
      \<lparr> ph_name = ''Intermediate Mastery'',
        ph_startWeek = Math_ceil (js_mul (of_int weeks) (b64 (35 / 100))) + 1,
        ph_endWeek = Math_ceil (js_mul (of_int weeks) (b64 (55 / 100))),
        ph_focus = ''Content depth'',
        ph_objectives = [''Advanced Algebra, Geometry'',
                           ''Rhetoric, Complex Passages'',
                           ''Pacing, Bookmarking'',
                           ''Full practice tests''],
        ph_weeklyHours = 12,
        ph_contentDistribution =
          \<lparr> learning = 30, practice = 40, testing = 20, review = 10 \<rparr> \<rparr>,
      \<lparr> ph_name = ''Advanced Content'',
        ph_startWeek = Math_ceil (js_mul (of_int weeks) (b64 (55 / 100))) + 1,
        ph_endWeek = Math_ceil (js_mul (of_int weeks) (b64 (75 / 100))),
        ph_focus = ''Complete coverage'',
        ph_objectives = [''Trigonometry, Advanced Functions'',
                           ''Synthesis, Complex Grammar'',
                           ''Desmos mastery'',
                           ''Regular testing''],
        ph_weeklyHours = 12,
        ph_contentDistribution =
          \<lparr> learning = 25, practice = 40, testing = 25, review = 10 \<rparr> \<rparr>,
      \<lparr> ph_name = ''Intensive Application'',
        ph_startWeek = Math_ceil (js_mul (of_int weeks) (b64 (75 / 100))) + 1,
        ph_endWeek = Math_ceil (js_mul (of_int weeks) (b64 (90 / 100))),
        ph_focus = ''Application and practice'',
        ph_objectives = [''Mixed content review'',
                           ''Heavy practice emphasis'',
                           ''Error pattern remediation'',
                           ''Multiple full tests''],
        ph_weeklyHours = 14,
        ph_contentDistribution =
          \<lparr> learning = 15, practice = 45, testing = 30, review = 10 \<rparr> \<rparr>,
      \<lparr> ph_name = ''Peak Performance'',
        ph_startWeek = Math_ceil (js_mul (of_int weeks) (b64 (90 / 100))) + 1,
        ph_endWeek = weeks,
        ph_focus = ''Peak readiness'',
        ph_objectives = [''Strategic review'',
                           ''High-frequency content focus'',
                           ''Final practice tests'',
                           ''Pre-test preparation''],
        ph_weeklyHours = 10,
        ph_contentDistribution =
          \<lparr> learning = 10, practice = 30, testing = 45, review = 15 \<rparr> \<rparr>]"

definition generateLongTermPhases :: "int \<Rightarrow> Phase list" where
  "generateLongTermPhases weeks =
     (let quarterLength = Math_floor (js_div (of_int weeks) 4)
      in [\<lparr> ph_name = ''Academic Foundation'',
           ph_startWeek = 1,
           ph_endWeek = quarterLength,
           ph_focus = ''Fill academic gaps and build learning habits'',
           ph_objectives = [''Pre-algebra review if needed'',
                              ''Basic grammar intensive'',
                              ''Reading fluency development'',
                              ''Study skills training''],
           ph_weeklyHours = 6,
           ph_contentDistribution =
             \<lparr> learning = 50, practice = 30, testing = 10, review = 10 \<rparr> \<rparr>,
         \<lparr> ph_name = ''Core SAT Content'',
           ph_startWeek = quarterLength + 1,
           ph_endWeek = quarterLength * 2,
           ph_focus = ''Complete SAT curriculum'',
           ph_objectives = [''All math domains'',
                              ''All R&W domains'',
                              ''Strategy introduction'',
                              ''Regular practice tests''],
           ph_weeklyHours = 8,
           ph_contentDistribution =
             \<lparr> learning = 40, practice = 35, testing = 15, review = 10 \<rparr> \<rparr>,
         \<lparr> ph_name = ''Advanced Mastery'',
           ph_startWeek = quarterLength * 2 + 1,
           ph_endWeek = quarterLength * 3,
           ph_focus = ''Deep skill development'',
           ph_objectives = [''Advanced problems'',
                              ''Strategy mastery'',
                              ''Speed building'',
                              ''Frequent testing''],
           ph_weeklyHours = 12,
           ph_contentDistribution =
             \<lparr> learning = 25, practice = 40, testing = 25, review = 10 \<rparr> \<rparr>,
         \<lparr> ph_name = ''Peak Performance'',
           ph_startWeek = quarterLength * 3 + 1,
           ph_endWeek = weeks,
           ph_focus = ''Test-day readiness'',
           ph_objectives = [''Intensive practice'',
                              ''Simulated testing'',
                              ''Final content review'',
                              ''Pre-test preparation''],
           ph_weeklyHours = 14,
           ph_contentDistribution =
             \<lparr> learning = 10, practice = 35, testing = 45, review = 10 \<rparr> \<rparr>])"

text \<open>The \<^verbatim>\<open>default\<close> branch of the \<^verbatim>\<open>switch\<close> has no value of \<open>PlanType\<close> left to match.\<close>

fun generatePhases :: "PlanType \<Rightarrow> int \<Rightarrow> ScoreGap \<Rightarrow> Phase list" where
  "generatePhases Cram totalWeeks scoreGap = generateCramPhases totalWeeks"
| "generatePhases Short totalWeeks scoreGap = generateShortPhases totalWeeks"
| "generatePhases Standard totalWeeks scoreGap = generateStandardPhases totalWeeks"
| "generatePhases Extended totalWeeks scoreGap = generateExtendedPhases totalWeeks"
| "generatePhases LongTerm totalWeeks scoreGap = generateLongTermPhases totalWeeks"

section \<open>Weekly plan generation\<close>

definition getTutoringFocusForPhase :: "string \<Rightarrow> int \<Rightarrow> int \<Rightarrow> string list \<times> string list" where
  "getTutoringFocusForPhase phaseName weekNumber totalWeeks =
     (if weekNumber = totalWeeks then
        ([''Test-day preparation'', ''Confidence building''],
         [''Review commonly missed problems'',
          ''Test-day strategies and timing'',
          ''Stress management techniques'',
          ''Final Q&A''])
      else if weekNumber = 1 then
        ([''Diagnostic review'', ''Goal setting''],
         [''Review diagnostic results'',
          ''Identify priority skill gaps'',
          ''Set weekly goals'',
          ''Establish study routine''])
      else if str_includes phaseName ''Foundation'' \<or> str_includes phaseName ''Assessment'' then
        ([''Core concepts'', ''Foundation building''],
         [''Algebra fundamentals'',
          ''Grammar rules mastery'',
          ''Reading comprehension strategies'',
          ''Question type identification''])
      else if str_includes phaseName ''Skill Building'' \<or> str_includes phaseName ''Development'' then
        ([''Skill development'', ''Strategy introduction''],
         [''Advanced algebra techniques'',
          ''Geometry problem solving'',
          ''Evidence-based reading'',
          ''Rhetorical analysis''])
      else if str_includes phaseName ''Mastery'' \<or> str_includes phaseName ''Advanced'' then
        ([''Advanced content'', ''Weak area targeting''],
         [''Complex problem types'',
          ''Error pattern analysis'',
          ''Pacing strategies'',
          ''Desmos calculator usage''])
      else if str_includes phaseName ''Application'' \<or> str_includes phaseName ''Strategy'' then
        ([''Test strategies'', ''Practice test review''],
         [''Practice test analysis'',
          ''Time management refinement'',
          ''Elimination techniques'',
          ''High-yield content review''])
      else
        ([''Final review'', ''Peak performance''],
         [''High-frequency topics review'',
          ''Quick wins identification'',
          ''Mental preparation'',
          ''Test-day logistics'']))"

text \<open>The loop \<^verbatim>\<open>for (let i = 1; i <= sessionsPerWeek; i++)\<close>, from index \<open>i\<close> on.\<close>

function tutoringSessionsLoop ::
  "string list \<times> string list \<Rightarrow> int \<Rightarrow> int \<Rightarrow> TutoringSession list" where
  "tutoringSessionsLoop phaseFocusAreas sessionsPerWeek i =
     (if i \<le> sessionsPerWeek then
        \<lparr> ts_sessionNumber = i,
          ts_duration = TUTORING_SESSION_DURATION,
          ts_focus = fst phaseFocusAreas,
          ts_suggestedTopics = slice (snd phaseFocusAreas) ((i - 1) * 2) (i * 2) \<rparr>
        # tutoringSessionsLoop phaseFocusAreas sessionsPerWeek (i + 1)
      else [])"
  by pat_completeness auto
termination
  by (relation "measure (\<lambda>(f, n, i). nat (n + 1 - i))") auto

declare tutoringSessionsLoop.simps [simp del]

definition generateTutoringSessions ::
  "Sessions \<Rightarrow> Phase \<Rightarrow> int \<Rightarrow> int \<Rightarrow> TutoringSession list" where
  "generateTutoringSessions sessionsPerWeek phase weekNumber totalWeeks =
     (let phaseFocusAreas = getTutoringFocusForPhase (ph_name phase) weekNumber totalWeeks
      in tutoringSessionsLoop phaseFocusAreas (sessionsNumber sessionsPerWeek) 1)"

text \<open>
  The loop \<^verbatim>\<open>for (let i = startIdx; i < endIdx; i++)\<close> that pushes \<^verbatim>\<open>phase.objectives[i]\<close>.
  The caller passes \<open>1 \<le> weekInPhase\<close> and \<open>1 \<le> totalPhaseWeeks\<close>, so that
  \<open>0 \<le> startIdx\<close> and \<open>endIdx \<le> length objectives\<close>: no index is out of range and the
  divisor is not zero.
\<close>

function objectivesLoop :: "string list \<Rightarrow> int \<Rightarrow> int \<Rightarrow> string list" where
  "objectivesLoop objectives endIdx i =
     (if i < endIdx then objectives ! nat i # objectivesLoop objectives endIdx (i + 1) else [])"
  by pat_completeness auto
termination
  by (relation "measure (\<lambda>(os, e, i). nat (e - i))") auto

declare objectivesLoop.simps [simp del]

definition generateWeeklyFocus :: "Phase \<Rightarrow> int \<Rightarrow> int \<Rightarrow> string list" where
  "generateWeeklyFocus phase weekInPhase totalPhaseWeeks =
     (let focus = (if weekInPhase = 1 then [''Begin '' @ ph_name phase @ '' phase''] else []);
          objectivesPerWeek =
            Math_ceil (js_div (of_int (int (length (ph_objectives phase)))) (of_int totalPhaseWeeks));
          startIdx = (weekInPhase - 1) * objectivesPerWeek;
          endIdx = min (startIdx + objectivesPerWeek) (int (length (ph_objectives phase)))
      in focus @ objectivesLoop (ph_objectives phase) endIdx startIdx)"

definition generateWeeklyActivities :: "Phase \<Rightarrow> int \<Rightarrow> int \<Rightarrow> int \<Rightarrow> Activity list" where
  "generateWeeklyActivities phase weekInPhase absoluteWeek totalWeeks =
     (let totalMinutes = ph_weeklyHours phase * 60;
          dist = ph_contentDistribution phase;
          activities1 =
            (if 0 < learning dist then
               [\<lparr> act_type = Lesson,
                  act_name = ''Video Lessons & Content'',
                  act_duration = Math_round (js_div (of_int (totalMinutes * learning dist)) 100),
                  act_description = ''Watch instructional videos and study content materials'' \<rparr>]
             else []);
          activities2 =
            (if 0 < practice dist then
               [\<lparr> act_type = Practice,
                  act_name = ''Practice Problems'',
                  act_duration = Math_round (js_div (of_int (totalMinutes * practice dist)) 100),
                  act_description = ''Work through targeted practice problems'' \<rparr>]
             else []);
          activities3 =
            (if 0 < testing dist then
               (if absoluteWeek = 1 then
                  [\<lparr> act_type = Diagnostic,
                     act_name = ''Diagnostic Test'',
                     act_duration = Math_round (js_div (of_int (totalMinutes * testing dist)) 100),
                     act_description =
                       ''Complete full diagnostic test to identify strengths and weaknesses'' \<rparr>]
                else if absoluteWeek = totalWeeks then
                  [\<lparr> act_type = Rest,
                     act_name = ''Final Preparation'',
                     act_duration = Math_round (js_div (of_int (totalMinutes * testing dist)) 100),
                     act_description = ''Light review and rest before test day'' \<rparr>]
                else
                  [\<lparr> act_type = Test,
                     act_name = ''Practice Test / Section Tests'',
                     act_duration = Math_round (js_div (of_int (totalMinutes * testing dist)) 100),
                     act_description =
                       ''Timed practice tests to build endurance and identify gaps'' \<rparr>])
             else []);
          activities4 =
            (if 0 < review dist then
               [\<lparr> act_type = Review,
                  act_name = ''Review & Flashcards'',
                  act_duration = Math_round (js_div (of_int (totalMinutes * review dist)) 100),
                  act_description = ''Review mistakes and use flashcards for retention'' \<rparr>]
             else [])
      in activities1 @ activities2 @ activities3 @ activities4)"

text \<open>
  The body of the loop over the weeks: the weekly plan of one week, given its owning phase.
\<close>

definition weeklyPlanOf :: "Phase \<Rightarrow> int \<Rightarrow> int \<Rightarrow> Sessions \<Rightarrow> WeeklyPlan" where
  "weeklyPlanOf phase week totalWeeks tutoringSessionsPerWeek =
     (let weekInPhase = week - ph_startWeek phase + 1;
          totalPhaseWeeks = ph_endWeek phase - ph_startWeek phase + 1;
          activities = generateWeeklyActivities phase weekInPhase week totalWeeks;
          tutoringSessions =
            generateTutoringSessions tutoringSessionsPerWeek phase week totalWeeks;
          tutoringHours =
            js_div (of_int (sessionsNumber tutoringSessionsPerWeek * TUTORING_SESSION_DURATION)) 60
      in \<lparr> wp_weekNumber = week,
           wp_phase = ph_name phase,
           wp_focus = generateWeeklyFocus phase weekInPhase totalPhaseWeeks,
           wp_activities = activities,
           wp_tutoringSessions = tutoringSessions,
           wp_targetHours = ph_weeklyHours phase,
           wp_targetProblems = Math_round (of_int (ph_weeklyHours phase * 8)),
           wp_totalHoursWithTutoring = js_add (of_int (ph_weeklyHours phase)) tutoringHours \<rparr>)"

text \<open>
  The loop \<^verbatim>\<open>for (let week = 1; week <= totalWeeks; week++)\<close>, from \<open>week\<close> on. A week
  that no phase contains is skipped (\<^verbatim>\<open>if (!phase) continue\<close>).
\<close>

function weeklyPlansLoop :: "Phase list \<Rightarrow> int \<Rightarrow> Sessions \<Rightarrow> int \<Rightarrow> WeeklyPlan list" where
  "weeklyPlansLoop phases totalWeeks tutoringSessionsPerWeek week =
     (if week \<le> totalWeeks then
        (case find (\<lambda>p. ph_startWeek p \<le> week \<and> week \<le> ph_endWeek p) phases of
           None \<Rightarrow> weeklyPlansLoop phases totalWeeks tutoringSessionsPerWeek (week + 1)
         | Some phase \<Rightarrow>
             weeklyPlanOf phase week totalWeeks tutoringSessionsPerWeek
             # weeklyPlansLoop phases totalWeeks tutoringSessionsPerWeek (week + 1))
      else [])"
  by pat_completeness auto
termination
  by (relation "measure (\<lambda>(ps, n, t, w). nat (n + 1 - w))") auto

declare weeklyPlansLoop.simps [simp del]

definition generateWeeklyPlans :: "Phase list \<Rightarrow> int \<Rightarrow> Sessions \<Rightarrow> WeeklyPlan list" where
  "generateWeeklyPlans phases totalWeeks tutoringSessionsPerWeek =
     weeklyPlansLoop phases totalWeeks tutoringSessionsPerWeek 1"

section \<open>Main plan generation\<close>

text \<open>
  \<^verbatim>\<open>generateStudyPlan\<close> reads the clock twice: in \<^verbatim>\<open>calculateTimeline\<close> (the start date)
  and for \<^verbatim>\<open>createdAt\<close>. Both readings are arguments here, and \<open>in_testDate\<close> is the
  test date normalised to midnight. \<^verbatim>\<open>recommendIntensity\<close> divides by the week count,
  which is \<open>tl_effectiveWeeks\<close> and so at least 1.
\<close>

definition generateStudyPlan :: "int \<Rightarrow> int \<Rightarrow> UserInput \<Rightarrow> StudyPlan" where
  "generateStudyPlan createdAt startDate input =
     (let timeline = calculateTimeline startDate (in_testDate input);
          scoreGap = calculateScoreGap (in_currentScore input) (in_targetScore input);
          (intensity, weeklyHours) =
            recommendIntensity (tl_effectiveWeeks timeline) (sg_totalGap scoreGap)
              (in_tutoringSessionsPerWeek input);
          feasibility =
            assessFeasibility timeline scoreGap intensity (in_tutoringSessionsPerWeek input);
          planType = selectPlanType (tl_effectiveWeeks timeline);
          phases = generatePhases planType (tl_effectiveWeeks timeline) scoreGap;
          weeklyPlans =
            generateWeeklyPlans phases (tl_effectiveWeeks timeline)
              (in_tutoringSessionsPerWeek input);
          projectedScore =
            min 1600
              (Math_round
                 (js_div (js_add (of_int (in_currentScore input))
                                 (fa_projectedImprovement feasibility)) 10) * 10);
          tutoringMultiplier = TUTORING_MULTIPLIERS (in_tutoringSessionsPerWeek input);
          tutoringHoursPerWeek =
            js_div (of_int (sessionsNumber (in_tutoringSessionsPerWeek input)
                            * TUTORING_SESSION_DURATION)) 60;
          totalTutoringSessions =
            sessionsNumber (in_tutoringSessionsPerWeek input) * tl_effectiveWeeks timeline
      in \<lparr> sp_createdAt = createdAt,
           sp_startDate = tl_startDate timeline,
           sp_testDate = tl_testDate timeline,
           sp_totalWeeks = tl_effectiveWeeks timeline,
           sp_startingScore = in_currentScore input,
           sp_targetScore = in_targetScore input,
           sp_projectedScore = projectedScore,
           sp_scoreGap = scoreGap,
           sp_planType = planType,
           sp_phases = phases,
           sp_weeklyPlans = weeklyPlans,
           sp_feasibility = feasibility,
           sp_studyIntensity = intensity,
           sp_weeklyHoursRecommended = weeklyHours,
           sp_tutoring =
             \<lparr> tu_sessionsPerWeek = in_tutoringSessionsPerWeek input,
               tu_totalSessions = totalTutoringSessions,
               tu_hoursPerWeek = tutoringHoursPerWeek,
               tu_multiplierApplied = tutoringMultiplier \<rparr> \<rparr>)"

section \<open>Inputs of the scenarios\<close>

text \<open>
  The example of the README: a student at 1080 aiming at 1350, two sessions a week, the test
  140 days after the start date, which leaves 19 effective weeks.
\<close>

definition scenarioInput :: UserInput where
  "scenarioInput =
     \<lparr> in_testDate = 140 * 86400000,
       in_currentScore = 1080,
       in_targetScore = 1350,
       in_tutoringSessionsPerWeek = Two \<rparr>"

text \<open>A timeline of 77 days, which leaves 10 effective weeks.\<close>

definition shortTimeline :: Timeline where
  "shortTimeline = calculateTimeline 0 (77 * 86400000)"

text \<open>
  A student at 1200 aiming at 1500, two sessions a week, the test 21 days after the start
  date, which leaves 2 effective weeks.
\<close>

definition adjustTargetInput :: UserInput where
  "adjustTargetInput =
     \<lparr> in_testDate = 21 * 86400000,
       in_currentScore = 1200,
       in_targetScore = 1500,
       in_tutoringSessionsPerWeek = Two \<rparr>"

text \<open>A timeline of 119 days, which leaves 16 effective weeks.\<close>

definition longTimeline :: Timeline where
  "longTimeline = calculateTimeline 0 (119 * 86400000)"

section \<open>The formulas of the specification in exact arithmetic\<close>

text \<open>
  The specification writes the projection, the confidence and the additional weeks as
  formulas over the decimal multipliers 1.20, 1.30, 1.35 and 1.40. The definitions below
  follow its words in exact rational arithmetic, to be compared with what the code
  computes in binary64.
\<close>

fun decimalMultiplier :: "Sessions \<Rightarrow> rat" where
  "decimalMultiplier One = 120 / 100"
| "decimalMultiplier Two = 130 / 100"
| "decimalMultiplier Three = 135 / 100"
| "decimalMultiplier Four = 140 / 100"

definition exactProjection :: "int \<Rightarrow> Intensity \<Rightarrow> Sessions \<Rightarrow> rat" where
  "exactProjection weeks intensity t =
     min (of_int weeks * WEEKLY_IMPROVEMENT_RATES intensity * decimalMultiplier t)
         (MAX_IMPROVEMENTS intensity * decimalMultiplier t)"

definition exactConfidence :: "int \<Rightarrow> int \<Rightarrow> Intensity \<Rightarrow> Sessions \<Rightarrow> int" where
  "exactConfidence weeks gap intensity t =
     (let projected = exactProjection weeks intensity t
      in if of_int gap \<le> projected then
           Math_round (if 0 < gap
                       then min 95 (60 + ((projected - of_int gap) / of_int gap) * 35)
                       else 95)
         else Math_round (max 20 (60 - (of_int gap - projected) / 10)))"

definition exactAdditionalWeeks :: "int \<Rightarrow> int \<Rightarrow> Intensity \<Rightarrow> Sessions \<Rightarrow> int" where
  "exactAdditionalWeeks weeks gap intensity t =
     \<lceil>(of_int gap - exactProjection weeks intensity t) /
      (WEEKLY_IMPROVEMENT_RATES intensity * decimalMultiplier t)\<rceil>"

text \<open>Timelines of 112 and of 154 days, which leave 15 and 21 effective weeks.\<close>

definition confidenceTimeline :: Timeline where
  "confidenceTimeline = calculateTimeline 0 (112 * 86400000)"

definition extendTimeline :: Timeline where
  "extendTimeline = calculateTimeline 0 (154 * 86400000)"

section \<open>Predicates on phase lists\<close>

text \<open>Each phase ends one week before the next one starts.\<close>

fun contiguous :: "Phase list \<Rightarrow> bool" where
  "contiguous (p # q # ps) = (ph_endWeek p + 1 = ph_startWeek q \<and> contiguous (q # ps))"
| "contiguous ps = True"

section \<open>Properties of the number model\<close>

lemma expo_lower: "0 < x \<Longrightarrow> 2 powi expo x \<le> x"
proof (induction x rule: expo.induct)
  case (1 x)
  show ?case
  proof (cases "2 \<le> x")
    case True
    with 1 have "2 powi expo (x / 2) \<le> x / 2" by simp
    moreover have "expo x = expo (x / 2) + 1"
      using True "1.prems" by (subst expo.simps) simp
    ultimately show ?thesis by (simp add: power_int_add)
  next
    case False
    show ?thesis
    proof (cases "x < 1")
      case True
      with 1 False have "2 powi expo (2 * x) \<le> 2 * x" by simp
      moreover have "expo x = expo (2 * x) - 1"
        using True False "1.prems" by (subst expo.simps) simp
      ultimately show ?thesis by (simp add: power_int_diff)
    next
      case F2: False
      have "expo x = 0" using False F2 "1.prems" by (subst expo.simps) simp
      with F2 show ?thesis by simp
    qed
  qed
qed

lemma expo_upper: "0 < x \<Longrightarrow> x < 2 powi (expo x + 1)"
proof (induction x rule: expo.induct)
  case (1 x)
  show ?case
  proof (cases "2 \<le> x")
    case True
    with 1 have "x / 2 < 2 powi (expo (x / 2) + 1)" by simp
    moreover have "expo x = expo (x / 2) + 1"
      using True "1.prems" by (subst expo.simps) simp
    ultimately show ?thesis by (simp add: power_int_add)
  next
    case False
    show ?thesis
    proof (cases "x < 1")
      case True
      with 1 False have "2 * x < 2 powi (expo (2 * x) + 1)" by simp
      moreover have "expo x = expo (2 * x) - 1"
        using True False "1.prems" by (subst expo.simps) simp
      ultimately show ?thesis by (simp add: power_int_add)
    next
      case F2: False
      have "expo x = 0" using False F2 "1.prems" by (subst expo.simps) simp
      with False show ?thesis by simp
    qed
  qed
qed

lemma round_even_error: "\<bar>of_int (round_even q) - q\<bar> \<le> 1 / 2"
proof -
  have "of_int \<lfloor>q\<rfloor> \<le> q" "q < of_int \<lfloor>q\<rfloor> + 1" by linarith+
  then show ?thesis unfolding round_even_def Let_def by (auto simp: abs_le_iff)
qed

text \<open>Rounding to binary64 changes a number by at most half a unit in the last place.\<close>

lemma b64_error:
  assumes "0 \<le> x"
  shows "\<bar>b64 x - x\<bar> \<le> x / 2 ^ 53"
proof (cases "x = 0")
  case True
  then show ?thesis by (simp add: b64_def)
next
  case False
  with assms have pos: "0 < x" by simp
  define u :: rat where "u = 2 powi (expo x - 52)"
  have u_pos: "0 < u" by (simp add: u_def)
  have u_eq: "u = 2 powi expo x / 2 ^ 52" by (simp add: u_def power_int_diff)
  have b: "b64 x = of_int (round_even (x / u)) * u"
    using pos by (simp add: b64_def u_def Let_def)
  have "b64 x - x = (of_int (round_even (x / u)) - x / u) * u"
    using u_pos by (simp add: b left_diff_distrib)
  then have "\<bar>b64 x - x\<bar> = \<bar>of_int (round_even (x / u)) - x / u\<bar> * u"
    using u_pos by (simp only: abs_mult abs_of_pos)
  also have "\<dots> \<le> 1 / 2 * u"
    using u_pos round_even_error [of "x / u"] by (intro mult_right_mono) simp_all
  also have "\<dots> = 2 powi expo x / 2 ^ 53" by (simp add: u_eq)
  also have "\<dots> \<le> x / 2 ^ 53" using expo_lower [OF pos] by (simp add: divide_right_mono)
  finally show ?thesis .
qed

lemma round_even_mono_int: "of_int a \<le> q \<Longrightarrow> q \<le> of_int b \<Longrightarrow> a \<le> round_even q \<and> round_even q \<le> b"
proof -
  assume a: "of_int a \<le> q" and b: "q \<le> of_int b"
  have fa: "a \<le> \<lfloor>q\<rfloor>" using a by (simp add: le_floor_iff)
  have fb: "\<lfloor>q\<rfloor> \<le> b" using b by (simp add: floor_le_iff)
  have eq: "\<lfloor>q\<rfloor> = b \<Longrightarrow> q = of_int b" using b by linarith
  show ?thesis
  proof (cases "\<lfloor>q\<rfloor> = b")
    case True
    then have "q - of_int \<lfloor>q\<rfloor> = 0" using eq by simp
    then have "round_even q = \<lfloor>q\<rfloor>" by (simp add: round_even_def Let_def)
    with fa True show ?thesis by simp
  next
    case False
    with fb have "\<lfloor>q\<rfloor> + 1 \<le> b" by simp
    moreover have "\<lfloor>q\<rfloor> \<le> round_even q" "round_even q \<le> \<lfloor>q\<rfloor> + 1"
      by (simp_all add: round_even_def Let_def)
    ultimately show ?thesis using fa by linarith
  qed
qed

text \<open>The result has a significand of 53 bits.\<close>

lemma b64_significand:
  assumes "0 < x"
  shows "\<exists>n. 2 ^ 52 \<le> n \<and> n \<le> 2 ^ 53 \<and> b64 x = of_int n * 2 powi (expo x - 52)"
proof -
  define u :: rat where "u = 2 powi (expo x - 52)"
  have u_pos: "0 < u" by (simp add: u_def)
  have lo: "2 powi expo x \<le> x" using assms by (rule expo_lower)
  have hi: "x < 2 powi (expo x + 1)" using assms by (rule expo_upper)
  have "2 powi expo x = 2 ^ 52 * u" by (simp add: u_def power_int_diff)
  with lo have l: "of_int (2 ^ 52) \<le> x / u" using u_pos by (simp add: le_divide_eq)
  have "2 powi (expo x + 1) = 2 ^ 53 * u" by (simp add: u_def power_int_diff power_int_add)
  with hi have h: "x / u \<le> of_int (2 ^ 53)" using u_pos by (simp add: divide_le_eq)
  from round_even_mono_int [OF l h]
  have "2 ^ 52 \<le> round_even (x / u)" "round_even (x / u) \<le> 2 ^ 53" by simp_all
  moreover have "b64 x = of_int (round_even (x / u)) * u"
    using assms by (simp add: b64_def u_def Let_def)
  ultimately show ?thesis unfolding u_def by blast
qed

text \<open>The binary64 number written \<^verbatim>\<open>0.1\<close>.\<close>

lemma b64_tenth: "b64 (1 / 10) = 3602879701896397 / 2 ^ 55"
  by code_simp

lemma b64_upper: "0 \<le> x \<Longrightarrow> b64 x \<le> x + x / 2 ^ 53"
  using b64_error [of x] by linarith

lemma b64_lower: "0 \<le> x \<Longrightarrow> x - x / 2 ^ 53 \<le> b64 x"
  using b64_error [of x] by linarith

lemma b64_nonneg: "0 \<le> x \<Longrightarrow> 0 \<le> b64 x"
proof -
  assume a: "0 \<le> x"
  have "x / 2 ^ 53 \<le> x" using a by (simp add: divide_le_eq)
  with b64_lower [OF a] show ?thesis by linarith
qed

lemma b64_minus: "b64 (- x) = - b64 x"
  by (simp add: b64_def Let_def)

lemma b64_nonpos: "x \<le> 0 \<Longrightarrow> b64 x \<le> 0"
  using b64_nonneg [of "- x"] by (simp add: b64_minus)

lemma b64_pos: "0 < x \<Longrightarrow> 0 < b64 x"
proof -
  assume a: "0 < x"
  have "x / 2 ^ 53 < x" using a by (simp add: divide_less_eq)
  with b64_lower [of x] a show ?thesis by linarith
qed

text \<open>
  The product of a non-negative integer and a decimal literal, computed in binary64, is
  within a relative error of \<open>1 / 2 ^ 51\<close> of the exact product.
\<close>

lemma js_mul_literal:
  assumes "0 \<le> w" "0 \<le> c"
  shows "\<bar>js_mul (of_int w) (b64 c) - of_int w * c\<bar> \<le> of_int w * c / 2 ^ 51"
proof -
  define W :: rat where "W = of_int w"
  define e :: rat where "e = 1 / 2 ^ 53"
  have W: "0 \<le> W" using assms by (simp add: W_def)
  have e: "0 \<le> e" "e \<le> 1" by (simp_all add: e_def)
  have c1: "\<bar>b64 c - c\<bar> \<le> c * e" using b64_error [OF assms(2)] by (simp add: e_def)
  have "\<bar>W * b64 c - W * c\<bar> = W * \<bar>b64 c - c\<bar>"
    using W by (simp add: abs_mult right_diff_distrib [symmetric])
  also have "\<dots> \<le> W * (c * e)" using W c1 by (rule mult_left_mono [rotated])
  finally have x1: "\<bar>W * b64 c - W * c\<bar> \<le> W * c * e" by (simp add: mult.assoc)
  have b0: "0 \<le> b64 c" using assms(2) by (rule b64_nonneg)
  have x0: "0 \<le> W * b64 c" using W b0 by simp
  have x2: "\<bar>b64 (W * b64 c) - W * b64 c\<bar> \<le> W * b64 c * e"
    using b64_error [OF x0] by (simp add: e_def)
  have wc: "0 \<le> W * c" using W assms(2) by simp
  have "W * b64 c \<le> W * c + W * c * e" using x1 by linarith
  also have "\<dots> \<le> W * c + W * c * 1"
    using mult_left_mono [OF e(2) wc] by linarith
  finally have "W * b64 c \<le> 2 * (W * c)" by simp
  then have "W * b64 c * e \<le> 2 * (W * c) * e" using e(1) by (rule mult_right_mono)
  with x1 x2 have "\<bar>b64 (W * b64 c) - W * c\<bar> \<le> 3 * (W * c * e)" by linarith
  also have "\<dots> \<le> 4 * (W * c * e)"
  proof -
    have "0 \<le> W * c * e" using wc e(1) by (rule mult_nonneg_nonneg)
    then show ?thesis by linarith
  qed
  also have "\<dots> = W * c / 2 ^ 51" by (simp add: e_def)
  finally show ?thesis by (simp add: js_mul_def W_def)
qed

lemma js_div_int:
  assumes "0 \<le> w" "0 < d"
  shows "\<bar>js_div (of_int w) d - of_int w / d\<bar> \<le> of_int w / d / 2 ^ 53"
  unfolding js_div_def using assms by (intro b64_error) simp

text \<open>Bounds used to compare the arithmetic of the code with exact arithmetic.\<close>

lemma b64_abs_error:
  assumes "\<bar>x\<bar> \<le> B"
  shows "\<bar>b64 x - x\<bar> \<le> B / 2 ^ 53"
proof (cases "0 \<le> x")
  case True
  then have "\<bar>b64 x - x\<bar> \<le> x / 2 ^ 53" by (rule b64_error)
  also have "\<dots> \<le> B / 2 ^ 53" using assms True by (intro divide_right_mono) simp_all
  finally show ?thesis .
next
  case False
  then have n: "0 \<le> - x" by simp
  have "\<bar>b64 x - x\<bar> = \<bar>b64 (- x) - (- x)\<bar>" by (simp add: b64_minus)
  also have "\<dots> \<le> (- x) / 2 ^ 53" using n by (rule b64_error)
  also have "\<dots> \<le> B / 2 ^ 53" using assms False by (intro divide_right_mono) simp_all
  finally show ?thesis .
qed

lemma Math_round_close:
  assumes "\<bar>x - y\<bar> \<le> 1"
  shows "\<bar>Math_round x - Math_round y\<bar> \<le> 1"
proof -
  define fx where "fx = \<lfloor>x + 1 / 2\<rfloor>"
  define fy where "fy = \<lfloor>y + 1 / 2\<rfloor>"
  have x: "of_int fx \<le> x + 1 / 2" "x + 1 / 2 < of_int fx + 1"
    unfolding fx_def by linarith+
  have y: "of_int fy \<le> y + 1 / 2" "y + 1 / 2 < of_int fy + 1"
    unfolding fy_def by linarith+
  have "(of_int fx :: rat) < of_int (fy + 2)" using x y assms by simp
  then have a: "fx < fy + 2" by (simp only: of_int_less_iff)
  have "(of_int fy :: rat) < of_int (fx + 2)" using x y assms by simp
  then have b: "fy < fx + 2" by (simp only: of_int_less_iff)
  show ?thesis unfolding Math_round_def fx_def [symmetric] fy_def [symmetric]
    using a b by linarith
qed

lemma max_lipschitz: "\<bar>max c a - max c b\<bar> \<le> \<bar>a - b :: rat\<bar>"
  by (simp add: max_def abs_if)

lemma min_lipschitz: "\<bar>min c a - min c b\<bar> \<le> \<bar>a - b :: rat\<bar>"
  by (simp add: min_def abs_if)

lemma divide_ge_one: "1 \<le> G \<Longrightarrow> 0 \<le> a \<Longrightarrow> a / G \<le> (a :: rat)"
  by (simp add: divide_le_eq mult_le_cancel_left1)

lemma divide_ge_one_abs:
  assumes "1 \<le> G"
  shows "\<bar>a / G - b / G\<bar> \<le> \<bar>a - b :: rat\<bar>"
proof -
  have "\<bar>a / G - b / G\<bar> = \<bar>a - b\<bar> / G"
    using assms by (simp add: diff_divide_distrib [symmetric])
  also have "\<dots> \<le> \<bar>a - b\<bar>" using assms by (intro divide_ge_one) simp_all
  finally show ?thesis .
qed

lemma Math_ceil_close:
  assumes "\<bar>x - y\<bar> \<le> 1"
  shows "\<bar>Math_ceil x - Math_ceil y\<bar> \<le> 1"
proof -
  define cx where "cx = \<lceil>x\<rceil>"
  define cy where "cy = \<lceil>y\<rceil>"
  have x: "x \<le> of_int cx" "of_int cx < x + 1" unfolding cx_def by linarith+
  have y: "y \<le> of_int cy" "of_int cy < y + 1" unfolding cy_def by linarith+
  have "(of_int cx :: rat) < of_int (cy + 2)" using x y assms by simp
  then have a: "cx < cy + 2" by (simp only: of_int_less_iff)
  have "(of_int cy :: rat) < of_int (cx + 2)" using x y assms by simp
  then have b: "cy < cx + 2" by (simp only: of_int_less_iff)
  show ?thesis unfolding Math_ceil_def cx_def [symmetric] cy_def [symmetric]
    using a b by linarith
qed

lemma quotient_diff:
  assumes "b \<noteq> 0" "b' \<noteq> 0"
  shows "a' / b' - a / b = (a' - a) / b' + a * (b - b') / (b * b' :: rat)"
  using assms by (simp add: field_simps)

lemma abs_divide_ge_one:
  assumes "1 \<le> c"
  shows "\<bar>x / c\<bar> \<le> \<bar>x :: rat\<bar>"
proof -
  have c: "\<bar>c\<bar> = c" using assms by simp
  have "\<bar>x / c\<bar> = \<bar>x\<bar> / c" by (simp only: abs_divide c)
  also have "\<dots> \<le> \<bar>x\<bar>" by (rule divide_ge_one [OF assms]) simp
  finally show ?thesis .
qed

section \<open>Plan type selection is a monotone step function\<close>

text \<open>
  Claim C8. \<open>selectPlanType\<close> is defined on every week count and steps exactly at 4, 8, 16
  and 32: at most 4 weeks give cram, 5 to 8 short, 9 to 16 standard, 17 to 32 extended and
  33 or more long_term; and it never decreases in the order
  cram < short < standard < extended < long_term when the week count grows.
\<close>

theorem selectPlanType_steps:
  "(selectPlanType w = Cram \<longleftrightarrow> w \<le> 4) \<and>
   (selectPlanType w = Short \<longleftrightarrow> 5 \<le> w \<and> w \<le> 8) \<and>
   (selectPlanType w = Standard \<longleftrightarrow> 9 \<le> w \<and> w \<le> 16) \<and>
   (selectPlanType w = Extended \<longleftrightarrow> 17 \<le> w \<and> w \<le> 32) \<and>
   (selectPlanType w = LongTerm \<longleftrightarrow> 33 \<le> w) \<and>
   (\<forall>w'. w \<le> w' \<longrightarrow> planRank (selectPlanType w) \<le> planRank (selectPlanType w'))"
  by (auto simp: selectPlanType_def)

theorem selectPlanType_steps_witness:
  "selectPlanType 1 = Cram \<and> selectPlanType 4 = Cram \<and> selectPlanType 5 = Short \<and>
   selectPlanType 32 = Extended \<and> selectPlanType 33 = LongTerm \<and>
   planRank (selectPlanType 4) \<le> planRank (selectPlanType 5)"
  using selectPlanType_steps [of 1] selectPlanType_steps [of 4] selectPlanType_steps [of 5]
    selectPlanType_steps [of 32] selectPlanType_steps [of 33]
  by simp

section \<open>The scenario of the README\<close>

lemma scenario_timeline: "tl_effectiveWeeks (calculateTimeline 0 (140 * 86400000)) = 19"
  by code_simp

lemma scenario_intensity: "recommendIntensity 19 270 Two = (Moderate, 13 / 2)"
  by code_simp

lemma scenario_rate: "js_mul (of_int 19) (js_mul 15 (b64 (130 / 100))) = 741 / 2"
  by code_simp

lemma scenario_cap: "js_mul 250 (b64 (130 / 100)) = 325"
  by code_simp

lemma scenario_score: "Math_round (js_div (js_add (of_int 1080) 325) 10) = 141"
  by code_simp

lemma scenario_feasibility:
  assumes "tl_effectiveWeeks tline = 19" "sg_totalGap sg = 270"
  shows "fa_projectedImprovement (assessFeasibility tline sg Moderate Two) = 325 \<and>
         fa_isFeasible (assessFeasibility tline sg Moderate Two)"
  using assms scenario_rate scenario_cap
  by (simp add: assessFeasibility_def Let_def)

lemma scenario_gap:
  "sg_totalGap (calculateScoreGap 1080 1350) = 270"
  "sg_difficulty (calculateScoreGap 1080 1350) = DLarge"
  by (simp_all add: calculateScoreGap_def)

text \<open>
  Claim C1, as stated, fails: for current score 1080, target score 1350, two sessions a week
  and 19 effective weeks the difficulty of the score gap is not "significant". The gap of
  270 is above the bound 250 of that bucket.
\<close>

theorem scenario_difficulty_counterexample:
  "in_currentScore scenarioInput = 1080 \<and> in_targetScore scenarioInput = 1350 \<and>
   in_tutoringSessionsPerWeek scenarioInput = Two \<and>
   tl_effectiveWeeks (calculateTimeline 0 (in_testDate scenarioInput)) = 19 \<and>
   sg_difficulty (sp_scoreGap (generateStudyPlan 0 0 scenarioInput)) \<noteq> DSignificant"
  using scenario_timeline scenario_gap
  by (simp add: scenarioInput_def generateStudyPlan_def Let_def split_beta)

text \<open>
  Claim C1, amended. For current score 1080, target score 1350, two sessions a week and 19
  effective weeks, \<open>generateStudyPlan\<close> yields a total gap of 270 with difficulty "large",
  plan type "extended", projected score 1410 and a feasible assessment.
\<close>

theorem scenario_plan:
  assumes "in_currentScore input = 1080" "in_targetScore input = 1350"
    "in_tutoringSessionsPerWeek input = Two"
    "tl_effectiveWeeks (calculateTimeline startDate (in_testDate input)) = 19"
  shows "sg_totalGap (sp_scoreGap (generateStudyPlan createdAt startDate input)) = 270 \<and>
         sg_difficulty (sp_scoreGap (generateStudyPlan createdAt startDate input)) = DLarge \<and>
         sp_planType (generateStudyPlan createdAt startDate input) = Extended \<and>
         sp_projectedScore (generateStudyPlan createdAt startDate input) = 1410 \<and>
         fa_isFeasible (sp_feasibility (generateStudyPlan createdAt startDate input))"
proof -
  let ?sg = "calculateScoreGap 1080 1350"
  let ?tl = "calculateTimeline startDate (in_testDate input)"
  have fa: "fa_projectedImprovement (assessFeasibility ?tl ?sg Moderate Two) = 325"
    "fa_isFeasible (assessFeasibility ?tl ?sg Moderate Two)"
    using scenario_feasibility [OF assms(4) scenario_gap(1)] by simp_all
  show ?thesis
    using assms scenario_gap fa scenario_intensity scenario_score
    by (simp add: generateStudyPlan_def Let_def selectPlanType_def)
qed

theorem scenario_plan_witness:
  "in_currentScore scenarioInput = 1080 \<and> in_targetScore scenarioInput = 1350 \<and>
   in_tutoringSessionsPerWeek scenarioInput = Two \<and>
   tl_effectiveWeeks (calculateTimeline 0 (in_testDate scenarioInput)) = 19 \<and>
   sg_totalGap (sp_scoreGap (generateStudyPlan 7 0 scenarioInput)) = 270 \<and>
   sg_difficulty (sp_scoreGap (generateStudyPlan 7 0 scenarioInput)) = DLarge \<and>
   sp_planType (generateStudyPlan 7 0 scenarioInput) = Extended \<and>
   sp_projectedScore (generateStudyPlan 7 0 scenarioInput) = 1410 \<and>
   fa_isFeasible (sp_feasibility (generateStudyPlan 7 0 scenarioInput))"
proof -
  have h: "in_currentScore scenarioInput = 1080" "in_targetScore scenarioInput = 1350"
    "in_tutoringSessionsPerWeek scenarioInput = Two"
    "tl_effectiveWeeks (calculateTimeline 0 (in_testDate scenarioInput)) = 19"
    using scenario_timeline by (simp_all add: scenarioInput_def)
  show ?thesis using h scenario_plan [OF h, of 7] by simp
qed

section \<open>Feasibility: projection, verdict and confidence\<close>

lemma af_projected:
  "fa_projectedImprovement (assessFeasibility tline sg i t) =
     min (js_mul (of_int (tl_effectiveWeeks tline))
                 (js_mul (WEEKLY_IMPROVEMENT_RATES i) (TUTORING_MULTIPLIERS t)))
         (js_mul (MAX_IMPROVEMENTS i) (TUTORING_MULTIPLIERS t))"
  by (simp add: assessFeasibility_def Let_def)

lemma af_feasible_iff:
  "fa_isFeasible (assessFeasibility tline sg i t) \<longleftrightarrow>
     of_int (sg_totalGap sg) \<le> fa_projectedImprovement (assessFeasibility tline sg i t)"
  by (simp add: assessFeasibility_def Let_def)

lemma af_confidence_feasible:
  assumes "fa_isFeasible (assessFeasibility tline sg i t)"
  shows "fa_confidence (assessFeasibility tline sg i t) =
     Math_round (if 0 < sg_totalGap sg
       then min 95 (js_add 60 (js_mul (js_div
              (js_sub (fa_projectedImprovement (assessFeasibility tline sg i t))
                      (of_int (sg_totalGap sg)))
              (of_int (sg_totalGap sg))) 35))
       else 95)"
proof -
  define P where "P = min (js_mul (of_int (tl_effectiveWeeks tline))
                 (js_mul (WEEKLY_IMPROVEMENT_RATES i) (TUTORING_MULTIPLIERS t)))
         (js_mul (MAX_IMPROVEMENTS i) (TUTORING_MULTIPLIERS t))"
  have p: "fa_projectedImprovement (assessFeasibility tline sg i t) = P"
    by (simp only: af_projected P_def)
  have le: "of_int (sg_totalGap sg) \<le> P" using assms af_feasible_iff p by metis
  show ?thesis
    unfolding p unfolding assessFeasibility_def Let_def P_def [symmetric]
    using le by simp
qed

lemma af_confidence_infeasible:
  assumes "\<not> fa_isFeasible (assessFeasibility tline sg i t)"
  shows "fa_confidence (assessFeasibility tline sg i t) =
     Math_round (max 20 (js_sub 60 (js_div
        (js_sub (of_int (sg_totalGap sg))
                (fa_projectedImprovement (assessFeasibility tline sg i t))) 10)))"
proof -
  define P where "P = min (js_mul (of_int (tl_effectiveWeeks tline))
                 (js_mul (WEEKLY_IMPROVEMENT_RATES i) (TUTORING_MULTIPLIERS t)))
         (js_mul (MAX_IMPROVEMENTS i) (TUTORING_MULTIPLIERS t))"
  have p: "fa_projectedImprovement (assessFeasibility tline sg i t) = P"
    by (simp only: af_projected P_def)
  have le: "\<not> of_int (sg_totalGap sg) \<le> P" using assms af_feasible_iff p by metis
  show ?thesis
    unfolding p unfolding assessFeasibility_def Let_def P_def [symmetric]
    using le by simp
qed

lemma Math_round_bounds:
  assumes "of_int a \<le> x" "x \<le> of_int b"
  shows "a \<le> Math_round x \<and> Math_round x \<le> b"
proof -
  have "of_int a \<le> x + 1 / 2" using assms by simp
  then have "a \<le> \<lfloor>x + 1 / 2\<rfloor>" by (simp add: le_floor_iff)
  moreover have "x + 1 / 2 < of_int (b + 1)" using assms by simp
  then have "\<lfloor>x + 1 / 2\<rfloor> < b + 1" by (simp only: floor_less_iff)
  ultimately show ?thesis by (simp add: Math_round_def)
qed

lemma confidence_feasible_range:
  assumes "of_int gap \<le> proj" "0 < gap"
  shows "0 \<le> min 95 (js_add 60 (js_mul (js_div (js_sub proj (of_int gap)) (of_int gap)) 35))"
proof -
  have b: "0 \<le> js_sub proj (of_int gap)" using assms by (simp add: js_sub_def b64_nonneg)
  have d: "0 \<le> js_div (js_sub proj (of_int gap)) (of_int gap)"
    using b assms unfolding js_div_def by (intro b64_nonneg) simp
  have m: "0 \<le> js_mul (js_div (js_sub proj (of_int gap)) (of_int gap)) 35"
    using d unfolding js_mul_def by (intro b64_nonneg) simp
  have "0 \<le> js_add 60 (js_mul (js_div (js_sub proj (of_int gap)) (of_int gap)) 35)"
    using m unfolding js_add_def by (intro b64_nonneg) simp
  then show ?thesis by simp
qed

lemma confidence_infeasible_range:
  assumes "proj < of_int gap"
  shows "max 20 (js_sub 60 (js_div (js_sub (of_int gap) proj) 10)) \<le> 61"
proof -
  define d where "d = js_div (js_sub (of_int gap) proj) 10"
  have s: "0 \<le> js_sub (of_int gap) proj" using assms by (simp add: js_sub_def b64_nonneg)
  have d0: "0 \<le> d" using s unfolding d_def js_div_def by (intro b64_nonneg) simp
  have "js_sub 60 d \<le> 61"
  proof (cases "d \<le> 60")
    case True
    define r where "r = (60 - d) / 2 ^ 53"
    have "b64 (60 - d) \<le> (60 - d) + r" using True unfolding r_def by (intro b64_upper) simp
    moreover have "r \<le> 1" using d0 by (simp add: r_def)
    ultimately have "b64 (60 - d) \<le> 61" using d0 by linarith
    then show ?thesis by (simp add: js_sub_def)
  next
    case False
    then have "b64 (60 - d) \<le> 0" by (intro b64_nonpos) simp
    then show ?thesis by (simp add: js_sub_def)
  qed
  then show ?thesis by (simp add: d_def)
qed

lemma multiplier_literal: "TUTORING_MULTIPLIERS t = b64 (decimalMultiplier t)"
  by (cases t) simp_all

lemma decimalMultiplier_nonneg: "0 \<le> decimalMultiplier t"
  by (cases t) simp_all

lemma rate_is_int: "\<exists>k. 0 \<le> k \<and> WEEKLY_IMPROVEMENT_RATES i = of_int k"
  by (cases i) (auto intro: exI [of _ 8] exI [of _ 15] exI [of _ 22] exI [of _ 30])

lemma cap_is_int: "\<exists>k. 0 \<le> k \<and> MAX_IMPROVEMENTS i = of_int k"
  by (cases i) (auto intro: exI [of _ 150] exI [of _ 250] exI [of _ 350] exI [of _ 450])

text \<open>The projection of the code is within a factor \<open>1 / 2 ^ 50\<close> of the exact one.\<close>

lemma projection_close_to_exact:
  assumes w: "0 \<le> tl_effectiveWeeks tline" and m: "TUTORING_MULTIPLIERS t = b64 m" "0 \<le> m"
    and ex: "exact = min (of_int (tl_effectiveWeeks tline) * (WEEKLY_IMPROVEMENT_RATES i * m))
                         (MAX_IMPROVEMENTS i * m)"
  shows "\<bar>fa_projectedImprovement (assessFeasibility tline sg i t) - exact\<bar> \<le> exact / 2 ^ 50"
proof -
  define W :: rat where "W = of_int (tl_effectiveWeeks tline)"
  define R where "R = WEEKLY_IMPROVEMENT_RATES i * m"
  define C where "C = MAX_IMPROVEMENTS i * m"
  define R' where "R' = js_mul (WEEKLY_IMPROVEMENT_RATES i) (b64 m)"
  define C' where "C' = js_mul (MAX_IMPROVEMENTS i) (b64 m)"
  define P' where "P' = js_mul W R'"
  have W: "0 \<le> W" using w by (simp add: W_def)
  obtain k where k: "0 \<le> k" "WEEKLY_IMPROVEMENT_RATES i = of_int k" using rate_is_int by blast
  obtain l where l: "0 \<le> l" "MAX_IMPROVEMENTS i = of_int l" using cap_is_int by blast
  have R0: "0 \<le> R" using k m(2) by (simp add: R_def)
  have C0: "0 \<le> C" using l m(2) by (simp add: C_def)
  have R': "\<bar>R' - R\<bar> \<le> R / 2 ^ 51"
    unfolding R'_def R_def k(2) using k(1) m(2) by (rule js_mul_literal)
  have C': "\<bar>C' - C\<bar> \<le> C / 2 ^ 51"
    unfolding C'_def C_def l(2) using l(1) m(2) by (rule js_mul_literal)
  have R'0: "0 \<le> R'" unfolding R'_def js_mul_def using k m(2) by (intro b64_nonneg mult_nonneg_nonneg b64_nonneg) simp_all
  have WR'0: "0 \<le> W * R'" using W R'0 by simp
  have e1: "\<bar>P' - W * R'\<bar> \<le> W * R' / 2 ^ 53"
    unfolding P'_def js_mul_def using WR'0 by (rule b64_error)
  define X where "X = W * R"
  define X' where "X' = W * R'"
  have X0: "0 \<le> X" using W R0 by (simp add: X_def)
  have "\<bar>X' - X\<bar> = W * \<bar>R' - R\<bar>"
    using W by (simp add: X_def X'_def abs_mult right_diff_distrib [symmetric])
  also have "\<dots> \<le> W * (R / 2 ^ 51)" using R' W by (rule mult_left_mono)
  finally have e2: "\<bar>X' - X\<bar> \<le> X / 2 ^ 51" by (simp add: X_def)
  have e1': "\<bar>P' - X'\<bar> \<le> X' / 2 ^ 53" using e1 by (simp add: X'_def)
  have s1: "X / 2 ^ 51 \<le> X" using X0 by (simp add: divide_le_eq)
  have "X' \<le> 2 * X" using e2 s1 by linarith
  then have "X' / 2 ^ 53 \<le> 2 * X / 2 ^ 53" by (intro divide_right_mono) simp_all
  with e1' e2 have "\<bar>P' - X\<bar> \<le> X / 2 ^ 51 + 2 * X / 2 ^ 53" by linarith
  also have "\<dots> \<le> X / 2 ^ 50" using X0 by simp
  finally have P': "\<bar>P' - W * R\<bar> \<le> W * R / 2 ^ 50" by (simp add: X_def)
  have "C / 2 ^ 51 \<le> C / 2 ^ 50" using C0 by simp
  with C' have C'': "\<bar>C' - C\<bar> \<le> C / 2 ^ 50" by linarith
  have "\<bar>min P' C' - min (W * R) C\<bar> \<le> min (W * R) C / 2 ^ 50"
  proof -
    have a: "W * R - W * R / 2 ^ 50 \<le> P'" "P' \<le> W * R + W * R / 2 ^ 50" using P' by linarith+
    have b: "C - C / 2 ^ 50 \<le> C'" "C' \<le> C + C / 2 ^ 50" using C'' by linarith+
    have mono: "\<And>x y :: rat. x \<le> y \<Longrightarrow> x - x / 2 ^ 50 \<le> y - y / 2 ^ 50"
      by (simp add: field_simps)
    have mono2: "\<And>x y :: rat. x \<le> y \<Longrightarrow> x + x / 2 ^ 50 \<le> y + y / 2 ^ 50"
      by (simp add: field_simps)
    show ?thesis
    proof (cases "W * R \<le> C")
      case True
      then have mm: "min (W * R) C = W * R" by simp
      have "W * R - W * R / 2 ^ 50 \<le> C - C / 2 ^ 50" using True by (rule mono)
      with a b have "W * R - W * R / 2 ^ 50 \<le> min P' C'" "min P' C' \<le> W * R + W * R / 2 ^ 50"
        by (simp_all add: min_def)
      then show ?thesis unfolding mm by linarith
    next
      case False
      then have mm: "min (W * R) C = C" by simp
      have "C \<le> W * R" using False by simp
      then have "C - C / 2 ^ 50 \<le> W * R - W * R / 2 ^ 50" by (rule mono)
      with a b have "C - C / 2 ^ 50 \<le> min P' C'" "min P' C' \<le> C + C / 2 ^ 50"
        by (simp_all add: min_def)
      then show ?thesis unfolding mm by linarith
    qed
  qed
  then show ?thesis
    unfolding ex af_projected m(1) W_def R_def C_def P'_def R'_def C'_def by simp
qed

lemma longTimeline_weeks: "tl_effectiveWeeks longTimeline = 16"
  by code_simp

lemma intensive_four_values:
  "js_mul (of_int 16) (js_mul 22 (b64 (140 / 100))) = 2167357320672051 / 4398046511104"
  "js_mul 350 (b64 (140 / 100)) = 490 - 1 / 2 ^ 44"
  by code_simp+

lemma intensive_four_sixteen: "fst (recommendIntensity 16 490 Four) = Intensive"
  by code_simp

text \<open>
  Claim C5, as stated, fails when its formula is read in exact arithmetic. For a student
  at 1000 aiming at 1490 with four sessions a week and 16 effective weeks (for whom the
  intensive tier is recommended) the formula gives \<open>min (16 \<times> 22 \<times> 1.40) (350 \<times> 1.40) = 490\<close>,
  which reaches the gap of 490; the code computes the cap as \<open>490 - 1 / 2 ^ 44\<close> and
  returns an infeasible assessment.
\<close>

theorem projection_exact_counterexample:
  "tl_effectiveWeeks longTimeline = 16 \<and>
   sg_totalGap (calculateScoreGap 1000 1490) = 490 \<and>
   fst (recommendIntensity 16 490 Four) = Intensive \<and>
   exactProjection 16 Intensive Four = 490 \<and>
   fa_projectedImprovement
     (assessFeasibility longTimeline (calculateScoreGap 1000 1490) Intensive Four)
     = 490 - 1 / 2 ^ 44 \<and>
   \<not> fa_isFeasible
     (assessFeasibility longTimeline (calculateScoreGap 1000 1490) Intensive Four)"
  using longTimeline_weeks intensive_four_values intensive_four_sixteen
  by (simp add: af_feasible_iff af_projected calculateScoreGap_def exactProjection_def)

text \<open>
  Claim C5, amended. For every intensity tier, tutoring frequency, \<open>effectiveWeeks \<ge> 1\<close>
  and gap, \<open>assessFeasibility\<close> returns as projected improvement
  \<open>min (effectiveWeeks \<times> (baseRate \<times> multiplier)) (baseCap \<times> multiplier)\<close> computed in binary64
  arithmetic: the multipliers are the binary64 numbers nearest to 1.20, 1.30, 1.35 and
  1.40 and each product is rounded to the nearest binary64 number; the base rates are
  8/15/22/30 and the caps 150/250/350/450. This value differs from the exact value of the
  formula by at most that value divided by \<open>2 ^ 50\<close>. The assessment is feasible exactly
  when the returned projected improvement is at least the gap; so it is feasible when
  the exact value less its \<open>2 ^ 50\<close>-th part reaches the gap, and infeasible when the exact
  value plus its \<open>2 ^ 50\<close>-th part stays below the gap.
\<close>

theorem assessFeasibility_projection:
  assumes "fa = assessFeasibility tline sg i t" and "1 \<le> tl_effectiveWeeks tline"
    and "exact = exactProjection (tl_effectiveWeeks tline) i t"
  shows "fa_projectedImprovement fa =
           min (js_mul (of_int (tl_effectiveWeeks tline))
                       (js_mul (WEEKLY_IMPROVEMENT_RATES i) (b64 (decimalMultiplier t))))
               (js_mul (MAX_IMPROVEMENTS i) (b64 (decimalMultiplier t))) \<and>
         \<bar>fa_projectedImprovement fa - exact\<bar> \<le> exact / 2 ^ 50 \<and>
         (fa_isFeasible fa \<longleftrightarrow> of_int (sg_totalGap sg) \<le> fa_projectedImprovement fa) \<and>
         (of_int (sg_totalGap sg) \<le> exact - exact / 2 ^ 50 \<longrightarrow> fa_isFeasible fa) \<and>
         (exact + exact / 2 ^ 50 < of_int (sg_totalGap sg) \<longrightarrow> \<not> fa_isFeasible fa) \<and>
         map WEEKLY_IMPROVEMENT_RATES [Light, Moderate, Intensive, VeryIntensive] = [8, 15, 22, 30] \<and>
         map MAX_IMPROVEMENTS [Light, Moderate, Intensive, VeryIntensive] = [150, 250, 350, 450] \<and>
         map decimalMultiplier [One, Two, Three, Four] = [120 / 100, 130 / 100, 135 / 100, 140 / 100]"
proof -
  have w: "0 \<le> tl_effectiveWeeks tline" using assms(2) by simp
  have ex: "exact = min (of_int (tl_effectiveWeeks tline) *
                          (WEEKLY_IMPROVEMENT_RATES i * decimalMultiplier t))
                        (MAX_IMPROVEMENTS i * decimalMultiplier t)"
    unfolding assms(3) exactProjection_def by (simp only: mult.assoc)
  have c: "\<bar>fa_projectedImprovement fa - exact\<bar> \<le> exact / 2 ^ 50"
    unfolding assms(1)
    using projection_close_to_exact [OF w multiplier_literal decimalMultiplier_nonneg ex] .
  have p: "fa_projectedImprovement fa =
           min (js_mul (of_int (tl_effectiveWeeks tline))
                       (js_mul (WEEKLY_IMPROVEMENT_RATES i) (b64 (decimalMultiplier t))))
               (js_mul (MAX_IMPROVEMENTS i) (b64 (decimalMultiplier t)))"
    unfolding assms(1) af_projected multiplier_literal ..
  have f: "fa_isFeasible fa \<longleftrightarrow> of_int (sg_totalGap sg) \<le> fa_projectedImprovement fa"
    unfolding assms(1) by (rule af_feasible_iff)
  have f1: "of_int (sg_totalGap sg) \<le> exact - exact / 2 ^ 50 \<longrightarrow> fa_isFeasible fa"
    using c f by linarith
  have f2: "exact + exact / 2 ^ 50 < of_int (sg_totalGap sg) \<longrightarrow> \<not> fa_isFeasible fa"
    using c f by linarith
  have tabs: "map WEEKLY_IMPROVEMENT_RATES [Light, Moderate, Intensive, VeryIntensive] = [8, 15, 22, 30]"
    "map MAX_IMPROVEMENTS [Light, Moderate, Intensive, VeryIntensive] = [150, 250, 350, 450]"
    "map decimalMultiplier [One, Two, Three, Four] = [120 / 100, 130 / 100, 135 / 100, 140 / 100]"
    by simp_all
  from p c f f1 f2 tabs show ?thesis by (intro conjI)
qed

lemma shortTimeline_weeks: "tl_effectiveWeeks shortTimeline = 10"
  by code_simp

lemma light_one_values:
  "js_mul (of_int 10) (js_mul 8 (b64 (120 / 100))) = 96"
  "js_mul 150 (b64 (120 / 100)) = 180"
  by code_simp+

theorem assessFeasibility_projection_witness:
  "1 \<le> tl_effectiveWeeks shortTimeline \<and>
   exactProjection (tl_effectiveWeeks shortTimeline) Light One = 96 \<and>
   fa_projectedImprovement (assessFeasibility shortTimeline (calculateScoreGap 1000 1100) Light One) = 96 \<and>
   \<not> fa_isFeasible (assessFeasibility shortTimeline (calculateScoreGap 1000 1100) Light One) \<and>
   fa_isFeasible (assessFeasibility shortTimeline (calculateScoreGap 1000 1090) Light One)"
proof -
  have h: "1 \<le> tl_effectiveWeeks shortTimeline" using shortTimeline_weeks by simp
  have e: "exactProjection (tl_effectiveWeeks shortTimeline) Light One = 96"
    using shortTimeline_weeks by (simp add: exactProjection_def)
  show ?thesis
    using h e
      assessFeasibility_projection [OF refl h refl, of "calculateScoreGap 1000 1100" Light One]
      assessFeasibility_projection [OF refl h refl, of "calculateScoreGap 1000 1090" Light One]
      shortTimeline_weeks light_one_values
    by (simp add: calculateScoreGap_def)
qed

text \<open>The exact projection lies between 0 and the largest cap.\<close>

lemma exactProjection_bounds:
  assumes "0 \<le> w"
  shows "0 \<le> exactProjection w i t \<and> exactProjection w i t \<le> 630"
proof -
  have c: "0 \<le> MAX_IMPROVEMENTS i * decimalMultiplier t \<and>
           MAX_IMPROVEMENTS i * decimalMultiplier t \<le> 630"
    by (cases i; cases t) simp_all
  have r: "0 \<le> WEEKLY_IMPROVEMENT_RATES i * decimalMultiplier t"
    by (cases i; cases t) simp_all
  have "0 \<le> of_int w * (WEEKLY_IMPROVEMENT_RATES i * decimalMultiplier t)"
    using assms by (intro mult_nonneg_nonneg [OF _ r]) simp
  then have "0 \<le> of_int w * WEEKLY_IMPROVEMENT_RATES i * decimalMultiplier t"
    by (simp only: mult.assoc)
  with c show ?thesis unfolding exactProjection_def by (simp add: min_le_iff_disj)
qed

text \<open>The feasible formula: rounding each operation moves the result by less than a half.\<close>

lemma confidence_feasible_arith:
  assumes G: "1 \<le> G" and x: "G \<le> x" "x \<le> 631"
  shows "\<bar>min 95 (js_add 60 (js_mul (js_div (js_sub x G) G) 35)) -
          min 95 (60 + ((x - G) / G) * 35)\<bar> \<le> 1 / 4"
proof -
  define s where "s = x - G"
  define s' where "s' = js_sub x G"
  define q where "q = s / G"
  define q' where "q' = js_div s' G"
  define y' where "y' = js_mul q' 35"
  define z' where "z' = js_add 60 y'"
  define u :: rat where "u = 1 / 2 ^ 53"
  have u: "0 < u" "u \<le> 1 / 4000000" by (simp_all add: u_def)
  have s: "0 \<le> s" "s \<le> 631" using x G by (simp_all add: s_def)
  have "\<bar>s' - s\<bar> \<le> 631 / 2 ^ 53"
    unfolding s'_def js_sub_def s_def [symmetric] using s by (intro b64_abs_error) simp
  then have s1: "\<bar>s' - s\<bar> \<le> 631 * u" by (simp add: u_def)
  have s'0: "0 \<le> s'" unfolding s'_def js_sub_def s_def [symmetric] using s by (intro b64_nonneg)
  have s'b: "s' \<le> 632" using s1 s u by linarith
  have d1: "\<bar>s' / G - q\<bar> \<le> 631 * u"
    unfolding q_def using divide_ge_one_abs [OF G, of s' s] s1 by linarith
  have d0: "0 \<le> s' / G" using s'0 G by simp
  have db: "s' / G \<le> 632" using divide_ge_one [OF G s'0] s'b by linarith
  have "\<bar>q' - s' / G\<bar> \<le> 632 / 2 ^ 53"
    unfolding q'_def js_div_def using d0 db by (intro b64_abs_error) simp
  then have q1: "\<bar>q' - s' / G\<bar> \<le> 632 * u" by (simp add: u_def)
  have q'0: "0 \<le> q'" unfolding q'_def js_div_def using d0 by (intro b64_nonneg)
  have q'b: "q' \<le> 633" using q1 db u by linarith
  have qq: "\<bar>q' - q\<bar> \<le> 1263 * u" using q1 d1 by linarith
  have "\<bar>y' - q' * 35\<bar> \<le> 22155 / 2 ^ 53"
    unfolding y'_def js_mul_def using q'0 q'b by (intro b64_abs_error) simp
  then have y1: "\<bar>y' - q' * 35\<bar> \<le> 22155 * u" by (simp add: u_def)
  have y'0: "0 \<le> y'" unfolding y'_def js_mul_def using q'0 by (intro b64_nonneg) simp
  have y'b: "y' \<le> 22156" using y1 q'b u by linarith
  have "\<bar>z' - (60 + y')\<bar> \<le> 22216 / 2 ^ 53"
    unfolding z'_def js_add_def using y'0 y'b by (intro b64_abs_error) simp
  then have z1: "\<bar>z' - (60 + y')\<bar> \<le> 22216 * u" by (simp add: u_def)
  have "\<bar>z' - (60 + q * 35)\<bar> \<le> 88576 * u" using z1 y1 qq by linarith
  then have "\<bar>z' - (60 + q * 35)\<bar> \<le> 1 / 4" using u by linarith
  then have "\<bar>min 95 z' - min 95 (60 + q * 35)\<bar> \<le> 1 / 4"
    using min_lipschitz [of 95 z' "60 + q * 35"] by linarith
  then show ?thesis
    unfolding z'_def y'_def q'_def s'_def q_def s_def .
qed

text \<open>The infeasible formula likewise.\<close>

lemma confidence_infeasible_arith:
  assumes "x < G"
  shows "\<bar>max 20 (js_sub 60 (js_div (js_sub G x) 10)) - max 20 (60 - (G - x) / 10)\<bar> \<le> 1 / 4"
proof -
  define s where "s = G - x"
  define s' where "s' = js_sub G x"
  define d' where "d' = js_div s' 10"
  define e' where "e' = js_sub 60 d'"
  define u :: rat where "u = 1 / 2 ^ 53"
  have u: "0 < u" "u \<le> 1 / 4000000" by (simp_all add: u_def)
  have s: "0 < s" using assms by (simp add: s_def)
  have s'0: "0 \<le> s'" unfolding s'_def js_sub_def s_def [symmetric] using s by (intro b64_nonneg) simp
  have d'0: "0 \<le> d'" unfolding d'_def js_div_def using s'0 by (intro b64_nonneg) simp
  show ?thesis
  proof (cases "1000 \<le> s")
    case True
    have "s - s / 2 ^ 53 \<le> s'"
      unfolding s'_def js_sub_def s_def [symmetric] using s by (intro b64_lower) simp
    moreover have "s / 2 ^ 53 \<le> s / 1000" using s by (intro divide_left_mono) simp_all
    ultimately have "999 \<le> s'" using True by linarith
    then have a: "999 / 10 \<le> s' / 10" by simp
    have "s' / 10 - s' / 10 / 2 ^ 53 \<le> d'"
      unfolding d'_def js_div_def using s'0 by (intro b64_lower) simp
    moreover have "s' / 10 / 2 ^ 53 \<le> s' / 10 / 1000" using s'0 by (intro divide_left_mono) simp_all
    ultimately have "99 \<le> d'" using a by linarith
    then have "b64 (60 - d') \<le> 0" by (intro b64_nonpos) simp
    then have l: "max 20 (js_sub 60 d') = 20" by (simp add: js_sub_def)
    have r: "max 20 (60 - s / 10) = 20" using True by simp
    show ?thesis
      using l r unfolding d'_def s'_def s_def by simp
  next
    case False
    then have sb: "s \<le> 1000" by simp
    have "\<bar>s' - s\<bar> \<le> 1000 / 2 ^ 53"
      unfolding s'_def js_sub_def s_def [symmetric] using s sb by (intro b64_abs_error) simp
    then have s1: "\<bar>s' - s\<bar> \<le> 1000 * u" by (simp add: u_def)
    have s'b: "s' \<le> 1001" using s1 sb u by linarith
    have "\<bar>d' - s' / 10\<bar> \<le> 101 / 2 ^ 53"
      unfolding d'_def js_div_def using s'0 s'b by (intro b64_abs_error) simp
    then have d1: "\<bar>d' - s' / 10\<bar> \<le> 101 * u" by (simp add: u_def)
    have d'b: "d' \<le> 102" using d1 s'b u by linarith
    have "\<bar>e' - (60 - d')\<bar> \<le> 162 / 2 ^ 53"
      unfolding e'_def js_sub_def using d'0 d'b by (intro b64_abs_error) simp
    then have e1: "\<bar>e' - (60 - d')\<bar> \<le> 162 * u" by (simp add: u_def)
    have "\<bar>e' - (60 - s / 10)\<bar> \<le> 363 * u" using e1 d1 s1 by linarith
    then have "\<bar>e' - (60 - s / 10)\<bar> \<le> 1 / 4" using u by linarith
    then have "\<bar>max 20 e' - max 20 (60 - s / 10)\<bar> \<le> 1 / 4"
      using max_lipschitz [of 20 e' "60 - s / 10"] by linarith
    then show ?thesis unfolding e'_def d'_def s'_def s_def .
  qed
qed

text \<open>The exact formula moves by at most 36 times a small change of the projection, also
  across the point where the projection meets the gap.\<close>

lemma confidence_exact_lipschitz:
  assumes G: "(1 :: rat) \<le> G" and d: "\<bar>x - y\<bar> \<le> d" "d \<le> 1 / 1000"
  shows "\<bar>(if G \<le> x then min 95 (60 + ((x - G) / G) * 35) else max 20 (60 - (G - x) / 10)) -
          (if G \<le> y then min 95 (60 + ((y - G) / G) * 35) else max 20 (60 - (G - y) / 10))\<bar>
         \<le> 36 * d"
proof -
  define qx where "qx = (x - G) / G"
  define qy where "qy = (y - G) / G"
  have xy: "x - y \<le> d" "y - x \<le> d" using d(1) by linarith+
  have dn: "0 \<le> d" using xy by linarith
  have "\<bar>qx - qy\<bar> \<le> \<bar>(x - G) - (y - G)\<bar>"
    unfolding qx_def qy_def by (rule divide_ge_one_abs [OF G])
  also have "(x - G) - (y - G) = x - y" by simp
  finally have qq: "\<bar>qx - qy\<bar> \<le> d" using d(1) by (rule order_trans)
  have qx: "0 \<le> qx \<and> qx \<le> x - G" if "G \<le> x"
  proof -
    have n: "0 \<le> x - G" using that by simp
    have "0 \<le> (x - G) / G" using n G by simp
    with divide_ge_one [OF G n] show ?thesis by (simp only: qx_def)
  qed
  have qy: "0 \<le> qy \<and> qy \<le> y - G" if "G \<le> y"
  proof -
    have n: "0 \<le> y - G" using that by simp
    have "0 \<le> (y - G) / G" using n G by simp
    with divide_ge_one [OF G n] show ?thesis by (simp only: qy_def)
  qed
  consider (ff) "G \<le> x" "G \<le> y" | (ii) "\<not> G \<le> x" "\<not> G \<le> y" | (fi) "G \<le> x" "\<not> G \<le> y"
    | (if') "\<not> G \<le> x" "G \<le> y" by blast
  then have "\<bar>(if G \<le> x then min 95 (60 + qx * 35) else max 20 (60 - (G - x) / 10)) -
          (if G \<le> y then min 95 (60 + qy * 35) else max 20 (60 - (G - y) / 10))\<bar>
         \<le> 36 * d"
  proof cases
    case ff
    have eq: "60 + qx * 35 - (60 + qy * 35) = (qx - qy) * 35" by (simp add: left_diff_distrib)
    have "\<bar>60 + qx * 35 - (60 + qy * 35)\<bar> = \<bar>qx - qy\<bar> * \<bar>35\<bar>"
      unfolding eq by (rule abs_mult)
    also have "\<dots> = \<bar>qx - qy\<bar> * 35" by simp
    finally have "\<bar>60 + qx * 35 - (60 + qy * 35)\<bar> = \<bar>qx - qy\<bar> * 35" .
    also have "\<dots> \<le> d * 35" by (rule mult_right_mono [OF qq]) simp
    also have "\<dots> \<le> 36 * d" using dn by linarith
    finally have "\<bar>60 + qx * 35 - (60 + qy * 35)\<bar> \<le> 36 * d" .
    then have "\<bar>min 95 (60 + qx * 35) - min 95 (60 + qy * 35)\<bar> \<le> 36 * d"
      by (rule order_trans [OF min_lipschitz])
    then show ?thesis by (simp only: ff if_True)
  next
    case ii
    have eq: "60 - (G - x) / 10 - (60 - (G - y) / 10) = (x - y) / 10" by (simp add: field_simps)
    have "\<bar>60 - (G - x) / 10 - (60 - (G - y) / 10)\<bar> = \<bar>x - y\<bar> / \<bar>10\<bar>"
      unfolding eq by (rule abs_divide)
    also have "\<dots> = \<bar>x - y\<bar> / 10" by simp
    finally have "\<bar>60 - (G - x) / 10 - (60 - (G - y) / 10)\<bar> = \<bar>x - y\<bar> / 10" .
    also have "\<dots> \<le> d / 10" by (rule divide_right_mono [OF d(1)]) simp
    also have "\<dots> \<le> 36 * d" using dn by linarith
    finally have "\<bar>60 - (G - x) / 10 - (60 - (G - y) / 10)\<bar> \<le> 36 * d" .
    then have "\<bar>max 20 (60 - (G - x) / 10) - max 20 (60 - (G - y) / 10)\<bar> \<le> 36 * d"
      by (rule order_trans [OF max_lipschitz])
    then show ?thesis by (simp only: ii if_False)
  next
    case fi
    define gy where "gy = G - y"
    define b where "b = gy / 10"
    have a: "0 \<le> qx" "qx \<le> d" using qx [OF fi(1)] fi xy by linarith+
    have gy: "0 \<le> gy" "gy \<le> d" unfolding gy_def using fi xy by linarith+
    have b: "0 \<le> b" "b \<le> d" unfolding b_def using gy by linarith+
    have "60 + qx * 35 \<le> 95" using a d(2) by linarith
    then have m1: "min 95 (60 + qx * 35) = 60 + qx * 35" by (rule min_absorb2)
    have "20 \<le> 60 - b" using b d(2) by linarith
    then have m2: "max 20 (60 - b) = 60 - b" by (rule max_absorb2)
    have "\<bar>(60 + qx * 35) - (60 - b)\<bar> \<le> 36 * d" using a b by linarith
    then show ?thesis by (simp only: fi if_True if_False m1 m2 b_def [symmetric] gy_def [symmetric])
  next
    case if'
    define gx where "gx = G - x"
    define b where "b = gx / 10"
    have a: "0 \<le> qy" "qy \<le> d" using qy [OF if'(2)] if' xy by linarith+
    have gx: "0 \<le> gx" "gx \<le> d" unfolding gx_def using if' xy by linarith+
    have b: "0 \<le> b" "b \<le> d" unfolding b_def using gx by linarith+
    have "60 + qy * 35 \<le> 95" using a d(2) by linarith
    then have m1: "min 95 (60 + qy * 35) = 60 + qy * 35" by (rule min_absorb2)
    have "20 \<le> 60 - b" using b d(2) by linarith
    then have m2: "max 20 (60 - b) = 60 - b" by (rule max_absorb2)
    have "\<bar>(60 - b) - (60 + qy * 35)\<bar> \<le> 36 * d" using a b by linarith
    then show ?thesis by (simp only: if' if_True if_False m1 m2 b_def [symmetric] gx_def [symmetric])
  qed
  then show ?thesis unfolding qx_def qy_def .
qed

text \<open>The confidence of the code is within one point of the confidence of the formula
  evaluated in exact arithmetic.\<close>

lemma confidence_close_to_exact:
  assumes w: "0 \<le> tl_effectiveWeeks tline"
  shows "\<bar>fa_confidence (assessFeasibility tline sg i t) -
          exactConfidence (tl_effectiveWeeks tline) (sg_totalGap sg) i t\<bar> \<le> 1"
proof -
  define FA where "FA = assessFeasibility tline sg i t"
  define P where "P = fa_projectedImprovement FA"
  define E where "E = exactProjection (tl_effectiveWeeks tline) i t"
  define g where "g = sg_totalGap sg"
  define G :: rat where "G = of_int g"
  define d :: rat where "d = 630 / 2 ^ 50"
  have d: "0 < d" "d \<le> 1 / 1000000" by (simp_all add: d_def)
  have E: "0 \<le> E" "E \<le> 630"
    using exactProjection_bounds [OF w, of i t] by (simp_all add: E_def)
  have "\<bar>P - E\<bar> \<le> E / 2 ^ 50"
    unfolding P_def FA_def
    by (rule projection_close_to_exact [OF w multiplier_literal decimalMultiplier_nonneg])
       (simp add: E_def exactProjection_def mult.assoc)
  moreover have "E / 2 ^ 50 \<le> 630 / 2 ^ 50" using E by (intro divide_right_mono) simp_all
  moreover have "E / 2 ^ 50 \<le> E" using E by (simp add: divide_le_eq mult_le_cancel_left1)
  ultimately have PE: "\<bar>P - E\<bar> \<le> d" and P0: "0 \<le> P" unfolding d_def by linarith+
  have Pb: "P \<le> 631" using PE E d by linarith
  have feas: "fa_isFeasible FA \<longleftrightarrow> G \<le> P"
    unfolding FA_def P_def G_def g_def by (rule af_feasible_iff)
  show ?thesis
  proof (cases "0 < g")
    case False
    then have G0: "G \<le> 0" by (simp add: G_def)
    have f: "fa_isFeasible FA" using feas G0 P0 by simp
    have "fa_confidence FA = Math_round 95"
      using af_confidence_feasible [OF f [unfolded FA_def]] False
      by (simp add: FA_def g_def)
    moreover have "exactConfidence (tl_effectiveWeeks tline) g i t = Math_round 95"
      unfolding exactConfidence_def Let_def E_def [symmetric] G_def [symmetric]
      using False G0 E by simp
    ultimately show ?thesis by (simp add: FA_def g_def)
  next
    case True
    then have G1: "1 \<le> G" by (simp add: G_def)
    define cJ where "cJ = (if G \<le> P then min 95 (js_add 60 (js_mul (js_div (js_sub P G) G) 35))
                           else max 20 (js_sub 60 (js_div (js_sub G P) 10)))"
    define cM where "cM = (if G \<le> P then min 95 (60 + ((P - G) / G) * 35)
                           else max 20 (60 - (G - P) / 10))"
    define cE where "cE = (if G \<le> E then min 95 (60 + ((E - G) / G) * 35)
                           else max 20 (60 - (G - E) / 10))"
    have j: "fa_confidence FA = Math_round cJ"
    proof (cases "G \<le> P")
      case True
      then have f: "fa_isFeasible FA" using feas by simp
      show ?thesis
        using af_confidence_feasible [OF f [unfolded FA_def]] True \<open>0 < g\<close>
        by (simp add: cJ_def FA_def P_def G_def g_def)
    next
      case False
      then have f: "\<not> fa_isFeasible FA" using feas by simp
      show ?thesis
        using af_confidence_infeasible [OF f [unfolded FA_def]] False
        by (simp add: cJ_def FA_def P_def G_def g_def)
    qed
    have e: "exactConfidence (tl_effectiveWeeks tline) g i t = Math_round cE"
      unfolding exactConfidence_def Let_def E_def [symmetric] G_def [symmetric] cE_def
      using True by simp
    have jm: "\<bar>cJ - cM\<bar> \<le> 1 / 4"
    proof (cases "G \<le> P")
      case True
      then show ?thesis
        unfolding cJ_def cM_def using confidence_feasible_arith [OF G1 True Pb] by simp
    next
      case False
      then have "P < G" by simp
      then show ?thesis
        unfolding cJ_def cM_def using confidence_infeasible_arith [of P G] False by simp
    qed
    have "\<bar>cM - cE\<bar> \<le> 36 * d"
      unfolding cM_def cE_def using d by (intro confidence_exact_lipschitz [OF G1 PE]) simp
    then have "\<bar>cJ - cE\<bar> \<le> 1" using jm d by linarith
    then have "\<bar>Math_round cJ - Math_round cE\<bar> \<le> 1" by (rule Math_round_close)
    then show ?thesis using j e by (simp add: FA_def g_def)
  qed
qed

lemma scenario_confidence:
  "Math_round (min 95 (js_add 60 (js_mul (js_div (js_sub 325 (of_int 270)) (of_int 270)) 35))) = 67"
  by code_simp

lemma light_one_confidence:
  "Math_round (max 20 (js_sub 60 (js_div (js_sub (of_int 100) 96) 10))) = 60"
  by code_simp

lemma confidenceTimeline_weeks: "tl_effectiveWeeks confidenceTimeline = 15"
  by code_simp

lemma intensive_four_fifteen:
  "fst (recommendIntensity 15 420 Four) = Intensive"
  "js_mul (of_int 15) (js_mul 22 (b64 (140 / 100))) = 462 - 1 / 2 ^ 44"
  "Math_round (min 95 (js_add 60 (js_mul (js_div
       (js_sub (462 - 1 / 2 ^ 44) (of_int 420)) (of_int 420)) 35))) = 63"
  by code_simp+

lemma confidence_edge:
  "fa_isFeasible (assessFeasibility confidenceTimeline (calculateScoreGap 1000 1420) Intensive Four)"
  "fa_confidence (assessFeasibility confidenceTimeline (calculateScoreGap 1000 1420) Intensive Four) = 63"
proof -
  let ?fa = "assessFeasibility confidenceTimeline (calculateScoreGap 1000 1420) Intensive Four"
  have g: "sg_totalGap (calculateScoreGap 1000 1420) = 420" by (simp add: calculateScoreGap_def)
  have p: "fa_projectedImprovement ?fa = 462 - 1 / 2 ^ 44"
    using confidenceTimeline_weeks intensive_four_values(2) intensive_four_fifteen(2)
    by (simp add: af_projected)
  show f: "fa_isFeasible ?fa" unfolding af_feasible_iff p g by simp
  show "fa_confidence ?fa = 63"
    unfolding af_confidence_feasible [OF f] p g using intensive_four_fifteen(3) by simp
qed

text \<open>
  Claim C9, as stated, fails when its formula is read in exact arithmetic. For a student
  at 1000 aiming at 1420 with four sessions a week and 15 effective weeks (intensive
  tier) the projection is 462 and the formula gives
  \<open>round (60 + (42 / 420) \<times> 35) = round 63.5 = 64\<close>; the code computes the projection as
  \<open>462 - 1 / 2 ^ 44\<close> and returns the confidence 63.
\<close>

theorem confidence_exact_counterexample:
  "tl_effectiveWeeks confidenceTimeline = 15 \<and>
   sg_totalGap (calculateScoreGap 1000 1420) = 420 \<and>
   fst (recommendIntensity 15 420 Four) = Intensive \<and>
   fa_isFeasible
     (assessFeasibility confidenceTimeline (calculateScoreGap 1000 1420) Intensive Four) \<and>
   fa_confidence
     (assessFeasibility confidenceTimeline (calculateScoreGap 1000 1420) Intensive Four) = 63 \<and>
   exactConfidence 15 420 Intensive Four = 64"
  using confidenceTimeline_weeks intensive_four_fifteen(1) confidence_edge
  by (simp add: calculateScoreGap_def exactConfidence_def exactProjection_def Math_round_def)

text \<open>
  Claim C9, amended. For every input the confidence returned by \<open>assessFeasibility\<close> is an
  integer between 0 and 100. When the assessment is feasible it is
  \<open>round (min 95 (60 + (buffer / gap) \<times> 35))\<close> with \<open>buffer = projected - gap\<close>, and 95
  when the gap is 0; when it is infeasible it is \<open>round (max 20 (60 - shortfall / 10))\<close>
  with \<open>shortfall = gap - projected\<close>. Here \<open>projected\<close> is the returned projected
  improvement and each subtraction, division, product and sum is computed in binary64
  arithmetic, rounded to the nearest binary64 number; \<open>round\<close> rounds a tie up. When the
  number of effective weeks is not negative, this confidence differs by at most one point
  from the confidence that the same formulas give in exact arithmetic, with the exact
  projection \<open>min (weeks \<times> baseRate \<times> multiplier) (baseCap \<times> multiplier)\<close> and the
  decimal multipliers 1.20, 1.30, 1.35 and 1.40.
\<close>

theorem assessFeasibility_confidence:
  assumes "fa = assessFeasibility tline sg i t"
  shows "0 \<le> fa_confidence fa \<and> fa_confidence fa \<le> 100 \<and>
   (fa_isFeasible fa \<longrightarrow>
      fa_confidence fa =
        Math_round (if 0 < sg_totalGap sg
          then min 95 (js_add 60 (js_mul (js_div
                 (js_sub (fa_projectedImprovement fa) (of_int (sg_totalGap sg)))
                 (of_int (sg_totalGap sg))) 35))
          else 95)) \<and>
   (\<not> fa_isFeasible fa \<longrightarrow>
      fa_confidence fa =
        Math_round (max 20 (js_sub 60 (js_div
          (js_sub (of_int (sg_totalGap sg)) (fa_projectedImprovement fa)) 10)))) \<and>
   (0 \<le> tl_effectiveWeeks tline \<longrightarrow>
      \<bar>fa_confidence fa -
        exactConfidence (tl_effectiveWeeks tline) (sg_totalGap sg) i t\<bar> \<le> 1)"
proof -
  have close: "0 \<le> tl_effectiveWeeks tline \<longrightarrow>
      \<bar>fa_confidence fa -
        exactConfidence (tl_effectiveWeeks tline) (sg_totalGap sg) i t\<bar> \<le> 1"
    unfolding assms using confidence_close_to_exact by blast
  have formula: "0 \<le> fa_confidence fa \<and> fa_confidence fa \<le> 100 \<and>
   (fa_isFeasible fa \<longrightarrow>
      fa_confidence fa =
        Math_round (if 0 < sg_totalGap sg
          then min 95 (js_add 60 (js_mul (js_div
                 (js_sub (fa_projectedImprovement fa) (of_int (sg_totalGap sg)))
                 (of_int (sg_totalGap sg))) 35))
          else 95)) \<and>
   (\<not> fa_isFeasible fa \<longrightarrow>
      fa_confidence fa =
        Math_round (max 20 (js_sub 60 (js_div
          (js_sub (of_int (sg_totalGap sg)) (fa_projectedImprovement fa)) 10))))"
  proof (cases "fa_isFeasible fa")
  case True
  let ?p = "fa_projectedImprovement fa"
  let ?g = "sg_totalGap sg"
  let ?c = "if 0 < ?g
            then min 95 (js_add 60 (js_mul (js_div (js_sub ?p (of_int ?g)) (of_int ?g)) 35))
            else 95"
  have conf: "fa_confidence fa = Math_round ?c"
    using af_confidence_feasible True unfolding assms by blast
  have le: "of_int ?g \<le> ?p" using True unfolding assms by (simp only: af_feasible_iff)
  have "of_int 0 \<le> ?c \<and> ?c \<le> of_int 95"
    using confidence_feasible_range [OF le] by simp
  then have "0 \<le> Math_round ?c \<and> Math_round ?c \<le> 95"
    using Math_round_bounds [of 0 ?c 95] by blast
  with conf True show ?thesis by simp
next
  case False
  let ?p = "fa_projectedImprovement fa"
  let ?g = "sg_totalGap sg"
  let ?c = "max 20 (js_sub 60 (js_div (js_sub (of_int ?g) ?p) 10))"
  have conf: "fa_confidence fa = Math_round ?c"
    using af_confidence_infeasible False unfolding assms by blast
  have lt: "?p < of_int ?g" using False unfolding assms by (simp only: af_feasible_iff not_le)
  have "of_int 20 \<le> ?c \<and> ?c \<le> of_int 61"
    using confidence_infeasible_range [OF lt] by simp
  then have "20 \<le> Math_round ?c \<and> Math_round ?c \<le> 61"
    using Math_round_bounds [of 20 ?c 61] by blast
  with conf False show ?thesis by simp
  qed
  from formula close show ?thesis by blast
qed

theorem assessFeasibility_confidence_witness:
  "fa_isFeasible (assessFeasibility (calculateTimeline 0 (140 * 86400000))
                    (calculateScoreGap 1080 1350) Moderate Two) \<and>
   fa_confidence (assessFeasibility (calculateTimeline 0 (140 * 86400000))
                    (calculateScoreGap 1080 1350) Moderate Two) = 67 \<and>
   0 \<le> tl_effectiveWeeks (calculateTimeline 0 (140 * 86400000)) \<and>
   \<bar>67 - exactConfidence 19 270 Moderate Two\<bar> \<le> 1 \<and>
   \<not> fa_isFeasible (assessFeasibility shortTimeline (calculateScoreGap 1000 1100) Light One) \<and>
   fa_confidence (assessFeasibility shortTimeline (calculateScoreGap 1000 1100) Light One) = 60"
proof -
  let ?fa = "assessFeasibility (calculateTimeline 0 (140 * 86400000))
               (calculateScoreGap 1080 1350) Moderate Two"
  let ?fb = "assessFeasibility shortTimeline (calculateScoreGap 1000 1100) Light One"
  note a = assessFeasibility_confidence [OF refl, of "calculateTimeline 0 (140 * 86400000)"
      "calculateScoreGap 1080 1350" Moderate Two]
  note b = assessFeasibility_confidence [OF refl, of shortTimeline
      "calculateScoreGap 1000 1100" Light One]
  have f: "fa_isFeasible ?fa" "fa_projectedImprovement ?fa = 325"
    using scenario_feasibility [OF scenario_timeline scenario_gap(1)] by simp_all
  have c: "fa_confidence ?fa = 67"
    using a f scenario_gap(1) scenario_confidence by simp
  have w: "0 \<le> tl_effectiveWeeks (calculateTimeline 0 (140 * 86400000))"
    unfolding scenario_timeline by simp
  have e: "\<bar>67 - exactConfidence 19 270 Moderate Two\<bar> \<le> 1"
    using a w c scenario_timeline scenario_gap(1) by simp
  have g: "sg_totalGap (calculateScoreGap 1000 1100) = 100" by (simp add: calculateScoreGap_def)
  have p: "fa_projectedImprovement ?fb = 96"
    using shortTimeline_weeks light_one_values by (simp add: af_projected)
  have n: "\<not> fa_isFeasible ?fb" unfolding af_feasible_iff p g by simp
  have d: "fa_confidence ?fb = 60"
    using b n unfolding p g using light_one_confidence by simp
  from f(1) c w e n d show ?thesis by blast
qed

section \<open>Feasibility: recommendations\<close>

text \<open>The weekly rate, by which the shortfall is divided, is positive.\<close>

lemma weeklyRate_pos: "0 < js_mul (WEEKLY_IMPROVEMENT_RATES i) (TUTORING_MULTIPLIERS t)"
proof -
  have r: "0 < WEEKLY_IMPROVEMENT_RATES i" by (cases i) simp_all
  have m: "0 < TUTORING_MULTIPLIERS t" by (cases t) (simp_all add: b64_pos)
  show ?thesis unfolding js_mul_def using r m by (intro b64_pos mult_pos_pos)
qed

lemma increaseIntensityLoop_shape:
  "increaseIntensityLoop w g m p ls = [] \<or>
   (\<exists>r. increaseIntensityLoop w g m p ls = [r] \<and> rec_type r = IncreaseIntensity \<and> rec_priority r = High)"
  by (induction ls) (simp_all add: Let_def)


lemma addTutoringRecommendation_shape:
  "addTutoringRecommendation w g br bm p t = [] \<or>
   (\<exists>r. addTutoringRecommendation w g br bm p t = [r] \<and> rec_type r = AddTutoring \<and>
        rec_priority r = High \<and> sessionsNumber t < 4)"
  by (simp add: addTutoringRecommendation_def Let_def del: sessionsNumber.simps)

lemma af_recommendations_infeasible:
  assumes "\<not> fa_isFeasible (assessFeasibility tline sg i t)"
  shows "\<exists>r1 r2.
    fa_recommendations (assessFeasibility tline sg i t) =
      r1 @ r2 @
      [extendTimelineRecommendation
         (js_sub (of_int (sg_totalGap sg)) (fa_projectedImprovement (assessFeasibility tline sg i t)))
         (js_mul (WEEKLY_IMPROVEMENT_RATES i) (TUTORING_MULTIPLIERS t)),
       adjustTargetRecommendation
         (js_sub (of_int (sg_totalGap sg)) (fa_projectedImprovement (assessFeasibility tline sg i t)))
         (fa_projectedImprovement (assessFeasibility tline sg i t))] \<and>
    (r1 = [] \<or> (\<exists>r. r1 = [r] \<and> rec_type r = IncreaseIntensity \<and> rec_priority r = High)) \<and>
    (r2 = [] \<or> (\<exists>r. r2 = [r] \<and> rec_type r = AddTutoring \<and> rec_priority r = High \<and>
                    sessionsNumber t < 4))"
proof -
  define P where "P = min (js_mul (of_int (tl_effectiveWeeks tline))
                 (js_mul (WEEKLY_IMPROVEMENT_RATES i) (TUTORING_MULTIPLIERS t)))
         (js_mul (MAX_IMPROVEMENTS i) (TUTORING_MULTIPLIERS t))"
  have p: "fa_projectedImprovement (assessFeasibility tline sg i t) = P"
    by (simp only: af_projected P_def)
  have le: "\<not> of_int (sg_totalGap sg) \<le> P" using assms af_feasible_iff p by metis
  define r1 where "r1 = increaseIntensityLoop (tl_effectiveWeeks tline) (sg_totalGap sg)
      (TUTORING_MULTIPLIERS t) P (drop (nat (indexOf intensityLevels i + 1)) intensityLevels)"
  define r2 where "r2 = addTutoringRecommendation (tl_effectiveWeeks tline) (sg_totalGap sg)
      (WEEKLY_IMPROVEMENT_RATES i) (MAX_IMPROVEMENTS i) P t"
  have s1: "r1 = [] \<or> (\<exists>r. r1 = [r] \<and> rec_type r = IncreaseIntensity \<and> rec_priority r = High)"
    unfolding r1_def by (rule increaseIntensityLoop_shape)
  have s2: "r2 = [] \<or> (\<exists>r. r2 = [r] \<and> rec_type r = AddTutoring \<and> rec_priority r = High \<and>
                    sessionsNumber t < 4)"
    unfolding r2_def by (rule addTutoringRecommendation_shape)
  have "fa_recommendations (assessFeasibility tline sg i t) =
      r1 @ r2 @
      [extendTimelineRecommendation (js_sub (of_int (sg_totalGap sg)) P)
         (js_mul (WEEKLY_IMPROVEMENT_RATES i) (TUTORING_MULTIPLIERS t)),
       adjustTargetRecommendation (js_sub (of_int (sg_totalGap sg)) P) P]"
    unfolding assessFeasibility_def Let_def P_def [symmetric] r1_def [symmetric] r2_def [symmetric]
    using le by simp
  with s1 s2 show ?thesis unfolding p by blast
qed


text \<open>The exact weekly rate lies between 9 and 42.\<close>

lemma exactRate_bounds:
  "9 \<le> WEEKLY_IMPROVEMENT_RATES i * decimalMultiplier t \<and>
   WEEKLY_IMPROVEMENT_RATES i * decimalMultiplier t \<le> 42"
  by (cases i; cases t) simp_all

text \<open>The weekly rate of the code is close to the exact product.\<close>

lemma weeklyRate_close_to_exact:
  "\<bar>js_mul (WEEKLY_IMPROVEMENT_RATES i) (TUTORING_MULTIPLIERS t) -
     WEEKLY_IMPROVEMENT_RATES i * decimalMultiplier t\<bar> \<le> 42 / 2 ^ 51"
proof -
  obtain k where k: "0 \<le> k" "WEEKLY_IMPROVEMENT_RATES i = of_int k"
    using rate_is_int by blast
  define b where "b = WEEKLY_IMPROVEMENT_RATES i * decimalMultiplier t"
  have "\<bar>js_mul (of_int k) (b64 (decimalMultiplier t)) - of_int k * decimalMultiplier t\<bar>
          \<le> of_int k * decimalMultiplier t / 2 ^ 51"
    by (rule js_mul_literal [OF k(1) decimalMultiplier_nonneg])
  then have "\<bar>js_mul (WEEKLY_IMPROVEMENT_RATES i) (TUTORING_MULTIPLIERS t) - b\<bar> \<le> b / 2 ^ 51"
    by (simp only: k(2) [symmetric] multiplier_literal b_def)
  also have "b / 2 ^ 51 \<le> 42 / 2 ^ 51"
    using exactRate_bounds [of i t] unfolding b_def by (intro divide_right_mono) simp_all
  finally show ?thesis unfolding b_def .
qed

text \<open>The number of additional weeks of the code is within one of the number the formula
  gives in exact arithmetic.\<close>

lemma additionalWeeks_close_to_exact:
  assumes w: "0 \<le> tl_effectiveWeeks tline" and g: "sg_totalGap sg \<le> 1200"
    and nf: "\<not> fa_isFeasible (assessFeasibility tline sg i t)"
  shows "\<bar>Math_ceil (js_div
             (js_sub (of_int (sg_totalGap sg))
                     (fa_projectedImprovement (assessFeasibility tline sg i t)))
             (js_mul (WEEKLY_IMPROVEMENT_RATES i) (TUTORING_MULTIPLIERS t))) -
          exactAdditionalWeeks (tl_effectiveWeeks tline) (sg_totalGap sg) i t\<bar> \<le> 1"
proof -
  define P where "P = fa_projectedImprovement (assessFeasibility tline sg i t)"
  define E where "E = exactProjection (tl_effectiveWeeks tline) i t"
  define G :: rat where "G = of_int (sg_totalGap sg)"
  define b where "b = WEEKLY_IMPROVEMENT_RATES i * decimalMultiplier t"
  define b' where "b' = js_mul (WEEKLY_IMPROVEMENT_RATES i) (TUTORING_MULTIPLIERS t)"
  define a0 where "a0 = G - P"
  define a where "a = G - E"
  define a' where "a' = js_sub G P"
  define u :: rat where "u = 1 / 2 ^ 53"
  have u: "0 < u" "u \<le> 1 / 1000000000" by (simp_all add: u_def)
  have E: "0 \<le> E" "E \<le> 630"
    using exactProjection_bounds [OF w, of i t] by (simp_all add: E_def)
  have "\<bar>P - E\<bar> \<le> E / 2 ^ 50"
    unfolding P_def
    by (rule projection_close_to_exact [OF w multiplier_literal decimalMultiplier_nonneg])
       (simp add: E_def exactProjection_def mult.assoc)
  moreover have "E / 2 ^ 50 \<le> 630 / 2 ^ 50" using E by (intro divide_right_mono) simp_all
  moreover have "E / 2 ^ 50 \<le> E" using E by (simp add: divide_le_eq mult_le_cancel_left1)
  ultimately have PE0: "\<bar>P - E\<bar> \<le> 630 / 2 ^ 50" and P0: "0 \<le> P" using E by linarith+
  have "(630 :: rat) / 2 ^ 50 = 5040 * u" by (simp add: u_def)
  with PE0 have PE: "\<bar>P - E\<bar> \<le> 5040 * u" by simp
  have G: "G \<le> 1200" using g by (simp add: G_def)
  have "P < G" using nf unfolding af_feasible_iff P_def G_def by simp
  then have a0: "0 < a0" "a0 \<le> 1200" using P0 G by (simp_all add: a0_def)
  have "\<bar>a' - a0\<bar> \<le> 1200 / 2 ^ 53"
    unfolding a'_def js_sub_def a0_def [symmetric] using a0 by (intro b64_abs_error) simp
  then have a1: "\<bar>a' - a0\<bar> \<le> 1200 * u" by (simp add: u_def)
  have a'0: "0 \<le> a'"
    unfolding a'_def js_sub_def a0_def [symmetric] using a0 by (intro b64_nonneg) simp
  have aa0: "a - a0 = P - E" by (simp add: a_def a0_def)
  have a2: "\<bar>a - a0\<bar> \<le> 5040 * u" unfolding aa0 by (rule PE)
  have a'a: "\<bar>a' - a\<bar> \<le> 6240 * u" using a1 a2 by linarith
  have ab: "\<bar>a\<bar> \<le> 1201" using a2 a0 u by linarith
  have a'b: "a' \<le> 1201" using a1 a0 u by linarith
  have b: "9 \<le> b" "b \<le> 42" using exactRate_bounds [of i t] by (simp_all add: b_def)
  have "\<bar>b' - b\<bar> \<le> 42 / 2 ^ 51" unfolding b'_def b_def by (rule weeklyRate_close_to_exact)
  then have bb: "\<bar>b' - b\<bar> \<le> 168 * u" by (simp add: u_def)
  have b'1: "1 \<le> b'" using bb b u by linarith
  have "1 * 1 \<le> b * b'" using b b'1 by (intro mult_mono) simp_all
  then have bb'1: "1 \<le> b * b'" by simp
  have nz: "b \<noteq> 0" "b' \<noteq> 0" using b b'1 by auto
  have t1: "\<bar>(a' - a) / b'\<bar> \<le> 6240 * u"
    using abs_divide_ge_one [OF b'1, of "a' - a"] a'a by linarith
  have "\<bar>a * (b - b')\<bar> = \<bar>a\<bar> * \<bar>b - b'\<bar>" by (rule abs_mult)
  also have "\<dots> \<le> 1201 * (168 * u)"
    using ab bb by (intro mult_mono) simp_all
  finally have "\<bar>a * (b - b')\<bar> \<le> 201768 * u" by simp
  then have t2: "\<bar>a * (b - b') / (b * b')\<bar> \<le> 201768 * u"
    using abs_divide_ge_one [OF bb'1, of "a * (b - b')"] by linarith
  define q1 where "q1 = a' / b'"
  define qE where "qE = a / b"
  define s1 where "s1 = (a' - a) / b'"
  define s2 where "s2 = a * (b - b') / (b * b')"
  have "q1 - qE = s1 + s2" unfolding q1_def qE_def s1_def s2_def by (rule quotient_diff [OF nz])
  moreover have "\<bar>s1\<bar> \<le> 6240 * u" "\<bar>s2\<bar> \<le> 201768 * u"
    using t1 t2 by (simp_all only: s1_def s2_def)
  ultimately have qq: "\<bar>q1 - qE\<bar> \<le> 208008 * u" by linarith
  have q0: "0 \<le> q1" unfolding q1_def using a'0 b'1 by simp
  have qb: "q1 \<le> 1201" unfolding q1_def using divide_ge_one [OF b'1 a'0] a'b by linarith
  have "\<bar>b64 q1 - q1\<bar> \<le> 1201 / 2 ^ 53" using q0 qb by (intro b64_abs_error) simp
  then have "\<bar>b64 q1 - q1\<bar> \<le> 1201 * u" by (simp add: u_def)
  then have "\<bar>b64 q1 - qE\<bar> \<le> 1" using qq u by linarith
  then have "\<bar>Math_ceil (b64 q1) - Math_ceil qE\<bar> \<le> 1" by (rule Math_ceil_close)
  moreover have "exactAdditionalWeeks (tl_effectiveWeeks tline) (sg_totalGap sg) i t = Math_ceil qE"
    by (simp add: exactAdditionalWeeks_def Math_ceil_def qE_def a_def b_def G_def E_def)
  moreover have "js_div (js_sub (of_int (sg_totalGap sg))
                     (fa_projectedImprovement (assessFeasibility tline sg i t)))
             (js_mul (WEEKLY_IMPROVEMENT_RATES i) (TUTORING_MULTIPLIERS t)) = b64 q1"
    by (simp only: js_div_def q1_def a'_def b'_def G_def P_def)
  ultimately show ?thesis by simp
qed

lemma light_one_infeasible:
  "\<not> fa_isFeasible (assessFeasibility shortTimeline (calculateScoreGap 1000 1100) Light One)"
  using shortTimeline_weeks light_one_values
  by (simp add: af_feasible_iff af_projected calculateScoreGap_def)

lemma extendTimeline_weeks: "tl_effectiveWeeks extendTimeline = 21"
  by code_simp

lemma intensive_four_twentyone:
  "fst (recommendIntensity 21 644 Four) = Intensive"
  "js_mul (of_int 21) (js_mul 22 (b64 (140 / 100))) = 2844656483382067 / 4398046511104"
  "Math_ceil (js_div (js_sub (of_int 644) (490 - 1 / 2 ^ 44)) (js_mul 22 (b64 (140 / 100)))) = 6"
  by code_simp+

lemma additionalWeeks_edge:
  "\<not> fa_isFeasible (assessFeasibility extendTimeline (calculateScoreGap 900 1544) Intensive Four)"
  "rec_type (last (butlast (fa_recommendations
      (assessFeasibility extendTimeline (calculateScoreGap 900 1544) Intensive Four)))) = ExtendTimeline"
  "rec_details (last (butlast (fa_recommendations
      (assessFeasibility extendTimeline (calculateScoreGap 900 1544) Intensive Four))))
     = [(''additionalWeeks'', JNum 6)]"
proof -
  let ?sg = "calculateScoreGap 900 1544"
  let ?fa = "assessFeasibility extendTimeline ?sg Intensive Four"
  have g: "sg_totalGap ?sg = 644" by (simp add: calculateScoreGap_def)
  have p: "fa_projectedImprovement ?fa = 490 - 1 / 2 ^ 44"
    using extendTimeline_weeks intensive_four_values(2) intensive_four_twentyone(2)
    by (simp add: af_projected)
  show nf: "\<not> fa_isFeasible ?fa" unfolding af_feasible_iff p g by simp
  from af_recommendations_infeasible [OF nf] obtain r1 r2 where
    "fa_recommendations ?fa = r1 @ r2 @
       [extendTimelineRecommendation
          (js_sub (of_int (sg_totalGap ?sg)) (fa_projectedImprovement ?fa))
          (js_mul (WEEKLY_IMPROVEMENT_RATES Intensive) (TUTORING_MULTIPLIERS Four)),
        adjustTargetRecommendation
          (js_sub (of_int (sg_totalGap ?sg)) (fa_projectedImprovement ?fa))
          (fa_projectedImprovement ?fa)]"
    by blast
  then have l: "last (butlast (fa_recommendations ?fa)) =
      extendTimelineRecommendation (js_sub (of_int 644) (490 - 1 / 2 ^ 44))
        (js_mul 22 (b64 (140 / 100)))"
    unfolding p g by (simp add: butlast_append)
  show "rec_type (last (butlast (fa_recommendations ?fa))) = ExtendTimeline"
    unfolding l by (simp add: extendTimelineRecommendation_def Let_def)
  show "rec_details (last (butlast (fa_recommendations ?fa))) = [(''additionalWeeks'', JNum 6)]"
    unfolding l extendTimelineRecommendation_def Let_def intensive_four_twentyone(3) by simp
qed

text \<open>
  Claim C6, as stated, fails when \<open>ceil (shortfall / weeklyRate)\<close> is read in exact
  arithmetic. For a student at 900 aiming at 1544 with four sessions a week and 21
  effective weeks (intensive tier) the shortfall is \<open>644 - 490 = 154\<close>, the weekly rate
  \<open>22 \<times> 1.40 = 30.8\<close> and the formula gives \<open>ceil 5 = 5\<close>; the code computes a quotient
  slightly above 5 and recommends 6 additional weeks.
\<close>

theorem additionalWeeks_exact_counterexample:
  "tl_effectiveWeeks extendTimeline = 21 \<and>
   sg_totalGap (calculateScoreGap 900 1544) = 644 \<and>
   fst (recommendIntensity 21 644 Four) = Intensive \<and>
   \<not> fa_isFeasible (assessFeasibility extendTimeline (calculateScoreGap 900 1544) Intensive Four) \<and>
   rec_type (last (butlast (fa_recommendations
      (assessFeasibility extendTimeline (calculateScoreGap 900 1544) Intensive Four)))) = ExtendTimeline \<and>
   rec_details (last (butlast (fa_recommendations
      (assessFeasibility extendTimeline (calculateScoreGap 900 1544) Intensive Four))))
     = [(''additionalWeeks'', JNum 6)] \<and>
   exactAdditionalWeeks 21 644 Intensive Four = 5"
  using extendTimeline_weeks intensive_four_twentyone(1) additionalWeeks_edge
  by (simp add: calculateScoreGap_def exactAdditionalWeeks_def exactProjection_def)

text \<open>
  Claim C6, amended. The recommendation list of \<open>assessFeasibility\<close> is empty exactly when
  the assessment is feasible. When it is infeasible the list ends with an extend_timeline
  recommendation of priority medium, whose additionalWeeks is
  \<open>ceil (shortfall / weeklyRate)\<close> with \<open>shortfall = gap - projected\<close> for the returned
  projected improvement and \<open>weeklyRate = baseRate \<times> multiplier\<close>, the subtraction, the
  product and the quotient computed in binary64 arithmetic, followed by an adjust_target
  recommendation of priority low; before them come, in this order and each optional, an
  increase_intensity and an add_tutoring recommendation, both of priority high, the latter
  only when the tutoring frequency is below 4. When the number of effective weeks is not
  negative and the gap is at most 1200, this additionalWeeks differs by at most one from
  \<open>ceil ((gap - projected) / (baseRate \<times> multiplier))\<close> in exact arithmetic, with the
  exact projection and the decimal multipliers 1.20, 1.30, 1.35 and 1.40.
\<close>

theorem assessFeasibility_recommendations:
  assumes "fa = assessFeasibility tline sg i t"
  shows "(fa_recommendations fa = [] \<longleftrightarrow> fa_isFeasible fa) \<and>
    (\<not> fa_isFeasible fa \<longrightarrow>
       (\<exists>pre ext adj.
          fa_recommendations fa = pre @ [ext, adj] \<and>
          map rec_type pre \<in>
            {[], [IncreaseIntensity], [AddTutoring], [IncreaseIntensity, AddTutoring]} \<and>
          (\<forall>r \<in> set pre. rec_priority r = High) \<and>
          (AddTutoring \<in> set (map rec_type pre) \<longrightarrow> sessionsNumber t < 4) \<and>
          rec_type ext = ExtendTimeline \<and> rec_priority ext = Medium \<and>
          rec_details ext =
            [(''additionalWeeks'', JNum (of_int (Math_ceil (js_div
                (js_sub (of_int (sg_totalGap sg)) (fa_projectedImprovement fa))
                (js_mul (WEEKLY_IMPROVEMENT_RATES i) (TUTORING_MULTIPLIERS t))))))] \<and>
          rec_type adj = AdjustTarget \<and> rec_priority adj = Low)) \<and>
    (\<not> fa_isFeasible fa \<and> 0 \<le> tl_effectiveWeeks tline \<and> sg_totalGap sg \<le> 1200 \<longrightarrow>
       \<bar>Math_ceil (js_div
            (js_sub (of_int (sg_totalGap sg)) (fa_projectedImprovement fa))
            (js_mul (WEEKLY_IMPROVEMENT_RATES i) (TUTORING_MULTIPLIERS t))) -
         exactAdditionalWeeks (tl_effectiveWeeks tline) (sg_totalGap sg) i t\<bar> \<le> 1)"
proof -
  have close: "\<not> fa_isFeasible fa \<and> 0 \<le> tl_effectiveWeeks tline \<and> sg_totalGap sg \<le> 1200 \<longrightarrow>
       \<bar>Math_ceil (js_div
            (js_sub (of_int (sg_totalGap sg)) (fa_projectedImprovement fa))
            (js_mul (WEEKLY_IMPROVEMENT_RATES i) (TUTORING_MULTIPLIERS t))) -
         exactAdditionalWeeks (tl_effectiveWeeks tline) (sg_totalGap sg) i t\<bar> \<le> 1"
    unfolding assms using additionalWeeks_close_to_exact by blast
  have shape: "(fa_recommendations fa = [] \<longleftrightarrow> fa_isFeasible fa) \<and>
    (\<not> fa_isFeasible fa \<longrightarrow>
       (\<exists>pre ext adj.
          fa_recommendations fa = pre @ [ext, adj] \<and>
          map rec_type pre \<in>
            {[], [IncreaseIntensity], [AddTutoring], [IncreaseIntensity, AddTutoring]} \<and>
          (\<forall>r \<in> set pre. rec_priority r = High) \<and>
          (AddTutoring \<in> set (map rec_type pre) \<longrightarrow> sessionsNumber t < 4) \<and>
          rec_type ext = ExtendTimeline \<and> rec_priority ext = Medium \<and>
          rec_details ext =
            [(''additionalWeeks'', JNum (of_int (Math_ceil (js_div
                (js_sub (of_int (sg_totalGap sg)) (fa_projectedImprovement fa))
                (js_mul (WEEKLY_IMPROVEMENT_RATES i) (TUTORING_MULTIPLIERS t))))))] \<and>
          rec_type adj = AdjustTarget \<and> rec_priority adj = Low))"
  proof (cases "fa_isFeasible fa")
  case True
  define P where "P = min (js_mul (of_int (tl_effectiveWeeks tline))
               (js_mul (WEEKLY_IMPROVEMENT_RATES i) (TUTORING_MULTIPLIERS t)))
       (js_mul (MAX_IMPROVEMENTS i) (TUTORING_MULTIPLIERS t))"
  have p: "fa_projectedImprovement (assessFeasibility tline sg i t) = P"
    by (simp only: af_projected P_def)
  have le: "of_int (sg_totalGap sg) \<le> P" using True assms af_feasible_iff p by metis
  have "fa_recommendations (assessFeasibility tline sg i t) = []"
    unfolding assessFeasibility_def Let_def P_def [symmetric] using le by simp
  with True assms show ?thesis by simp
next
  case False
  let ?sh = "js_sub (of_int (sg_totalGap sg)) (fa_projectedImprovement fa)"
  let ?ext = "extendTimelineRecommendation ?sh
                (js_mul (WEEKLY_IMPROVEMENT_RATES i) (TUTORING_MULTIPLIERS t))"
  let ?adj = "adjustTargetRecommendation ?sh (fa_projectedImprovement fa)"
  from False have nf: "\<not> fa_isFeasible (assessFeasibility tline sg i t)" using assms by simp
  from af_recommendations_infeasible [OF nf] obtain r1 r2 where
    h: "fa_recommendations fa = r1 @ r2 @ [?ext, ?adj]"
       "r1 = [] \<or> (\<exists>r. r1 = [r] \<and> rec_type r = IncreaseIntensity \<and> rec_priority r = High)"
       "r2 = [] \<or> (\<exists>r. r2 = [r] \<and> rec_type r = AddTutoring \<and> rec_priority r = High \<and>
                    sessionsNumber t < 4)"
    unfolding assms by blast
  have pre: "map rec_type (r1 @ r2) \<in>
               {[], [IncreaseIntensity], [AddTutoring], [IncreaseIntensity, AddTutoring]}"
    "\<forall>r \<in> set (r1 @ r2). rec_priority r = High"
    "AddTutoring \<in> set (map rec_type (r1 @ r2)) \<longrightarrow> sessionsNumber t < 4"
    using h(2,3) by auto
  have ext: "rec_type ?ext = ExtendTimeline" "rec_priority ?ext = Medium"
    "rec_details ?ext =
       [(''additionalWeeks'', JNum (of_int (Math_ceil (js_div ?sh
           (js_mul (WEEKLY_IMPROVEMENT_RATES i) (TUTORING_MULTIPLIERS t))))))]"
    by (simp_all add: extendTimelineRecommendation_def Let_def)
  have adj: "rec_type ?adj = AdjustTarget" "rec_priority ?adj = Low"
    by (simp_all add: adjustTargetRecommendation_def Let_def)
  have eq: "fa_recommendations fa = (r1 @ r2) @ [?ext, ?adj]" using h(1) by simp
  have ne: "fa_recommendations fa \<noteq> []" using h(1) by simp
  show ?thesis
  proof (intro conjI impI)
    show "fa_recommendations fa = [] \<longleftrightarrow> fa_isFeasible fa" using ne False by simp
    show "\<exists>pre ext adj.
          fa_recommendations fa = pre @ [ext, adj] \<and>
          map rec_type pre \<in>
            {[], [IncreaseIntensity], [AddTutoring], [IncreaseIntensity, AddTutoring]} \<and>
          (\<forall>r \<in> set pre. rec_priority r = High) \<and>
          (AddTutoring \<in> set (map rec_type pre) \<longrightarrow> sessionsNumber t < 4) \<and>
          rec_type ext = ExtendTimeline \<and> rec_priority ext = Medium \<and>
          rec_details ext =
            [(''additionalWeeks'', JNum (of_int (Math_ceil (js_div
                (js_sub (of_int (sg_totalGap sg)) (fa_projectedImprovement fa))
                (js_mul (WEEKLY_IMPROVEMENT_RATES i) (TUTORING_MULTIPLIERS t))))))] \<and>
          rec_type adj = AdjustTarget \<and> rec_priority adj = Low"
      apply (rule exI [of _ "r1 @ r2"])
      apply (rule exI [of _ ?ext])
      apply (rule exI [of _ ?adj])
      using eq pre ext adj by (intro conjI)
  qed
  qed
  from shape close show ?thesis by (rule conjI [THEN conj_assoc [THEN iffD1]])
qed

theorem assessFeasibility_recommendations_witness:
  "\<not> fa_isFeasible (assessFeasibility shortTimeline (calculateScoreGap 1000 1100) Light One) \<and>
   0 \<le> tl_effectiveWeeks shortTimeline \<and>
   sg_totalGap (calculateScoreGap 1000 1100) \<le> 1200 \<and>
   fa_recommendations (assessFeasibility shortTimeline (calculateScoreGap 1000 1100) Light One) \<noteq> [] \<and>
   (\<exists>pre ext adj.
      fa_recommendations (assessFeasibility shortTimeline (calculateScoreGap 1000 1100) Light One)
        = pre @ [ext, adj] \<and>
      rec_type ext = ExtendTimeline \<and> rec_type adj = AdjustTarget) \<and>
   \<bar>Math_ceil (js_div
        (js_sub (of_int (sg_totalGap (calculateScoreGap 1000 1100)))
           (fa_projectedImprovement
              (assessFeasibility shortTimeline (calculateScoreGap 1000 1100) Light One)))
        (js_mul (WEEKLY_IMPROVEMENT_RATES Light) (TUTORING_MULTIPLIERS One))) -
      exactAdditionalWeeks (tl_effectiveWeeks shortTimeline)
        (sg_totalGap (calculateScoreGap 1000 1100)) Light One\<bar> \<le> 1"
proof -
  have w: "0 \<le> tl_effectiveWeeks shortTimeline" unfolding shortTimeline_weeks by simp
  have g: "sg_totalGap (calculateScoreGap 1000 1100) \<le> 1200" by (simp add: calculateScoreGap_def)
  show ?thesis
    using assessFeasibility_recommendations [OF refl, of shortTimeline
        "calculateScoreGap 1000 1100" Light One] light_one_infeasible w g
    by blast
qed

section \<open>Feasibility: the adjust_target recommendation\<close>

lemma adjustTarget_timeline: "calculateTimeline 0 (in_testDate adjustTargetInput) =
    \<lparr> tl_startDate = 0, tl_testDate = 1814400000, tl_totalDays = 21,
      tl_totalWeeks = 3, tl_effectiveWeeks = 2 \<rparr>"
  by code_simp

lemma adjustTarget_intensity: "recommendIntensity 2 300 Two = (VeryIntensive, 33 / 2)"
  by code_simp

lemma adjustTarget_values:
  "js_mul (of_int 2) (js_mul 30 (b64 (130 / 100))) = 78"
  "js_mul 450 (b64 (130 / 100)) = 585"
  "Math_round (js_div (js_add 78 1000) 10) * 10 = 1080"
  "Math_round (js_div (js_add 78 (of_int 1200)) 10) * 10 = 1280"
  by code_simp+

lemma adjustTarget_feasibility:
  "sp_feasibility (generateStudyPlan 0 0 adjustTargetInput) =
     assessFeasibility (calculateTimeline 0 (in_testDate adjustTargetInput)) (calculateScoreGap 1200 1500)
       VeryIntensive Two"
  using adjustTarget_timeline adjustTarget_intensity
  by (simp add: generateStudyPlan_def adjustTargetInput_def Let_def calculateScoreGap_def)

text \<open>
  Claim C7 asks that the adjust_target recommendation proposes
  \<open>round ((projected + currentScore) / 10) \<times> 10\<close> for the student's current score. The
  code adds the constant 1000 (commented "placeholder, will be passed in actual use")
  instead: for a student at 1200 aiming at 1500 with 2 effective weeks the projected
  improvement is 78 and the proposed target is 1080, below the current score, where the
  claim asks for 1280.
\<close>

theorem adjust_target_placeholder:
  "in_currentScore adjustTargetInput = 1200 \<and>
   \<not> fa_isFeasible (sp_feasibility (generateStudyPlan 0 0 adjustTargetInput)) \<and>
   fa_projectedImprovement (sp_feasibility (generateStudyPlan 0 0 adjustTargetInput)) = 78 \<and>
   rec_type (last (fa_recommendations (sp_feasibility (generateStudyPlan 0 0 adjustTargetInput))))
     = AdjustTarget \<and>
   rec_details (last (fa_recommendations (sp_feasibility (generateStudyPlan 0 0 adjustTargetInput))))
     = [(''achievableScore'', JNum 1080)] \<and>
   Math_round (js_div (js_add 78 (of_int (in_currentScore adjustTargetInput))) 10) * 10 = 1280"
proof -
  let ?fa = "assessFeasibility (calculateTimeline 0 (in_testDate adjustTargetInput))
               (calculateScoreGap 1200 1500) VeryIntensive Two"
  have p: "fa_projectedImprovement ?fa = 78"
    using adjustTarget_timeline adjustTarget_values(1,2)
    by (simp add: af_projected)
  have nf: "\<not> fa_isFeasible ?fa"
    using p by (simp add: af_feasible_iff calculateScoreGap_def)
  from af_recommendations_infeasible [OF nf] obtain r1 r2 where
    "fa_recommendations ?fa = r1 @ r2 @
       [extendTimelineRecommendation
          (js_sub (of_int (sg_totalGap (calculateScoreGap 1200 1500))) (fa_projectedImprovement ?fa))
          (js_mul (WEEKLY_IMPROVEMENT_RATES VeryIntensive) (TUTORING_MULTIPLIERS Two)),
        adjustTargetRecommendation
          (js_sub (of_int (sg_totalGap (calculateScoreGap 1200 1500))) (fa_projectedImprovement ?fa))
          (fa_projectedImprovement ?fa)]"
    by blast
  then have l: "last (fa_recommendations ?fa) =
      adjustTargetRecommendation
        (js_sub (of_int (sg_totalGap (calculateScoreGap 1200 1500))) 78) 78"
    unfolding p by simp
  have "rec_type (last (fa_recommendations ?fa)) = AdjustTarget"
    "rec_details (last (fa_recommendations ?fa)) = [(''achievableScore'', JNum 1080)]"
    using adjustTarget_values(3) by (simp_all add: l adjustTargetRecommendation_def Let_def)
  with p nf adjustTarget_values(4) show ?thesis
    by (simp add: adjustTarget_feasibility) (simp add: adjustTargetInput_def)
qed

section \<open>Phase spans\<close>

lemma ceiling_gap: "x + 1 \<le> y \<Longrightarrow> \<lceil>x :: rat\<rceil> < \<lceil>y\<rceil>"
  by linarith

lemma floor_gap: "x + 1 \<le> y \<Longrightarrow> \<lfloor>x :: rat\<rfloor> < \<lfloor>y\<rfloor>"
  by linarith

lemma lit_lower:
  assumes "0 \<le> w" "0 \<le> c"
  shows "of_int w * c - of_int w * c / 1000 \<le> js_mul (of_int w) (b64 c)"
proof -
  have "0 \<le> (of_int w :: rat) * c" using assms by simp
  then have "(of_int w :: rat) * c / 2 ^ 51 \<le> of_int w * c / 1000"
    by (intro divide_left_mono) simp_all
  with js_mul_literal [OF assms] show ?thesis by linarith
qed

lemma lit_upper:
  assumes "0 \<le> w" "0 \<le> c"
  shows "js_mul (of_int w) (b64 c) \<le> of_int w * c + of_int w * c / 1000"
proof -
  have "0 \<le> (of_int w :: rat) * c" using assms by simp
  then have "(of_int w :: rat) * c / 2 ^ 51 \<le> of_int w * c / 1000"
    by (intro divide_left_mono) simp_all
  with js_mul_literal [OF assms] show ?thesis by linarith
qed

text \<open>
  Each template orders its boundaries strictly once the week count reaches the range the
  template is selected for: consecutive boundaries are more than one week apart before
  rounding, so \<open>floor\<close> and \<open>ceil\<close> keep them apart.
\<close>

lemma cram_ordered:
  assumes "2 \<le> w"
  shows "list_all (\<lambda>p. ph_startWeek p \<le> ph_endWeek p) (generateCramPhases w)"
proof (cases "w \<le> 2")
  case True
  with assms show ?thesis by (simp add: generateCramPhases_def)
next
  case False
  define W :: rat where "W = of_int w"
  have W: "3 \<le> W" using False by (simp add: W_def)
  define M where "M = js_div (of_int w) 2"
  have "\<bar>M - W / 2\<bar> \<le> W / 2 / 2 ^ 53"
    unfolding M_def W_def using False by (intro js_div_int) simp_all
  moreover have "W / 2 / 2 ^ 53 \<le> W / 2 / 1000" using W by simp
  ultimately have M: "W / 2 - W / 2 / 1000 \<le> M" "M \<le> W / 2 + W / 2 / 1000" by linarith+
  have f0: "1 \<le> \<lceil>M\<rceil>"
  proof -
    have "of_int 0 < M" using M W by simp
    then have "0 < \<lceil>M\<rceil>" by (simp only: less_ceiling_iff)
    then show ?thesis by simp
  qed
  have f1: "\<lceil>M\<rceil> + 1 \<le> w"
  proof -
    have "M \<le> W - 1" using M W by linarith
    then have "M \<le> of_int (w - 1)" by (simp add: W_def)
    then have "\<lceil>M\<rceil> \<le> w - 1" by (simp only: ceiling_le_iff)
    then show ?thesis by simp
  qed
  show ?thesis
    unfolding generateCramPhases_def Math_ceil_def M_def [symmetric]
    using False f0 f1 by simp
qed

lemma short_ordered:
  assumes "5 \<le> w"
  shows "list_all (\<lambda>p. ph_startWeek p \<le> ph_endWeek p) (generateShortPhases w)"
proof -
  define W :: rat where "W = of_int w"
  have W: "5 \<le> W" using assms by (simp add: W_def)
  have w0: "0 \<le> w" using assms by simp
  define A where "A = js_mul (of_int w) (b64 (3 / 10))"
  have A: "W * (3 / 10) - W * (3 / 10) / 1000 \<le> A" "A \<le> W * (3 / 10) + W * (3 / 10) / 1000"
    unfolding A_def W_def using w0 by (intro lit_lower lit_upper; simp)+
  define B where "B = js_mul (of_int w) (b64 (6 / 10))"
  have B: "W * (6 / 10) - W * (6 / 10) / 1000 \<le> B" "B \<le> W * (6 / 10) + W * (6 / 10) / 1000"
    unfolding B_def W_def using w0 by (intro lit_lower lit_upper; simp)+
  define C where "C = js_mul (of_int w) (b64 (85 / 100))"
  have C: "W * (85 / 100) - W * (85 / 100) / 1000 \<le> C" "C \<le> W * (85 / 100) + W * (85 / 100) / 1000"
    unfolding C_def W_def using w0 by (intro lit_lower lit_upper; simp)+
  have f0: "1 \<le> \<lfloor>A\<rfloor>"
  proof -
    have "of_int 1 \<le> A" using A W by simp
    then show ?thesis by (simp only: le_floor_iff)
  qed
  have f1: "\<lfloor>A\<rfloor> < \<lfloor>B\<rfloor>"
  proof (rule floor_gap)
    show "A + 1 \<le> B" using A B W by linarith
  qed
  have f2: "\<lfloor>B\<rfloor> < \<lfloor>C\<rfloor>"
  proof (rule floor_gap)
    show "B + 1 \<le> C" using B C W by linarith
  qed
  have f3: "\<lfloor>C\<rfloor> < w"
  proof -
    have "C < W" using C W by linarith
    then have "C < of_int w" by (simp add: W_def)
    then show ?thesis by (simp only: floor_less_iff)
  qed
  have nz: "\<lfloor>A\<rfloor> \<noteq> 0" "\<lfloor>B\<rfloor> \<noteq> 0" "\<lfloor>C\<rfloor> \<noteq> 0"
    using f0 f1 f2 by linarith+
  have j: "js_or \<lfloor>A\<rfloor> 1 = \<lfloor>A\<rfloor>" "js_or \<lfloor>B\<rfloor> 3 = \<lfloor>B\<rfloor>"
    "js_or \<lfloor>C\<rfloor> (w - 1) = \<lfloor>C\<rfloor>"
    unfolding js_or_def by (simp_all only: nz if_False)
  show ?thesis
    unfolding generateShortPhases_def Let_def Math_floor_def A_def [symmetric] B_def [symmetric]
      C_def [symmetric] j
    using f0 f1 f2 f3 by simp
qed

lemma standard_ordered:
  assumes "9 \<le> w"
  shows "list_all (\<lambda>p. ph_startWeek p \<le> ph_endWeek p) (generateStandardPhases w)"
proof -
  define W :: rat where "W = of_int w"
  have W: "9 \<le> W" using assms by (simp add: W_def)
  have w0: "0 \<le> w" using assms by simp
  define A where "A = js_mul (of_int w) (b64 (25 / 100))"
  have A: "W * (25 / 100) - W * (25 / 100) / 1000 \<le> A" "A \<le> W * (25 / 100) + W * (25 / 100) / 1000"
    unfolding A_def W_def using w0 by (intro lit_lower lit_upper; simp)+
  define B where "B = js_mul (of_int w) (b64 (55 / 100))"
  have B: "W * (55 / 100) - W * (55 / 100) / 1000 \<le> B" "B \<le> W * (55 / 100) + W * (55 / 100) / 1000"
    unfolding B_def W_def using w0 by (intro lit_lower lit_upper; simp)+
  define C where "C = js_mul (of_int w) (b64 (80 / 100))"
  have C: "W * (80 / 100) - W * (80 / 100) / 1000 \<le> C" "C \<le> W * (80 / 100) + W * (80 / 100) / 1000"
    unfolding C_def W_def using w0 by (intro lit_lower lit_upper; simp)+
  have f0: "2 \<le> \<lceil>A\<rceil>"
  proof -
    have "of_int (2 - 1) < A" using A W by simp
    then have "2 - 1 < \<lceil>A\<rceil>" by (simp only: less_ceiling_iff)
    then show ?thesis by simp
  qed
  have f1: "\<lceil>A\<rceil> < \<lceil>B\<rceil>"
  proof (rule ceiling_gap)
    show "A + 1 \<le> B" using A B W by linarith
  qed
  have f2: "\<lceil>B\<rceil> < \<lceil>C\<rceil>"
  proof (rule ceiling_gap)
    show "B + 1 \<le> C" using B C W by linarith
  qed
  have f3: "\<lceil>C\<rceil> < w"
  proof -
    have "C \<le> W - 1" using C W by linarith
    then have "C \<le> of_int (w - 1)" by (simp add: W_def)
    then have "\<lceil>C\<rceil> \<le> w - 1" by (simp only: ceiling_le_iff)
    then show ?thesis by simp
  qed
  show ?thesis
    unfolding generateStandardPhases_def Let_def Math_ceil_def A_def [symmetric] B_def [symmetric] C_def [symmetric]
    using f0 f1 f2 f3 by (simp add: js_or_def)
qed

lemma extended_ordered:
  assumes "17 \<le> w"
  shows "list_all (\<lambda>p. ph_startWeek p \<le> ph_endWeek p) (generateExtendedPhases w)"
proof -
  define W :: rat where "W = of_int w"
  have W: "17 \<le> W" using assms by (simp add: W_def)
  have w0: "0 \<le> w" using assms by simp
  define A where "A = js_mul (of_int w) (b64 (15 / 100))"
  have A: "W * (15 / 100) - W * (15 / 100) / 1000 \<le> A" "A \<le> W * (15 / 100) + W * (15 / 100) / 1000"
    unfolding A_def W_def using w0 by (intro lit_lower lit_upper; simp)+
  define B where "B = js_mul (of_int w) (b64 (35 / 100))"
  have B: "W * (35 / 100) - W * (35 / 100) / 1000 \<le> B" "B \<le> W * (35 / 100) + W * (35 / 100) / 1000"
    unfolding B_def W_def using w0 by (intro lit_lower lit_upper; simp)+
  define C where "C = js_mul (of_int w) (b64 (55 / 100))"
  have C: "W * (55 / 100) - W * (55 / 100) / 1000 \<le> C" "C \<le> W * (55 / 100) + W * (55 / 100) / 1000"
    unfolding C_def W_def using w0 by (intro lit_lower lit_upper; simp)+
  define D where "D = js_mul (of_int w) (b64 (75 / 100))"
  have D: "W * (75 / 100) - W * (75 / 100) / 1000 \<le> D" "D \<le> W * (75 / 100) + W * (75 / 100) / 1000"
    unfolding D_def W_def using w0 by (intro lit_lower lit_upper; simp)+
  define E where "E = js_mul (of_int w) (b64 (90 / 100))"
  have E: "W * (90 / 100) - W * (90 / 100) / 1000 \<le> E" "E \<le> W * (90 / 100) + W * (90 / 100) / 1000"
    unfolding E_def W_def using w0 by (intro lit_lower lit_upper; simp)+
  have f0: "1 \<le> \<lceil>A\<rceil>"
  proof -
    have "of_int (1 - 1) < A" using A W by simp
    then have "1 - 1 < \<lceil>A\<rceil>" by (simp only: less_ceiling_iff)
    then show ?thesis by simp
  qed
  have f1: "\<lceil>A\<rceil> < \<lceil>B\<rceil>"
  proof (rule ceiling_gap)
    show "A + 1 \<le> B" using A B W by linarith
  qed
  have f2: "\<lceil>B\<rceil> < \<lceil>C\<rceil>"
  proof (rule ceiling_gap)
    show "B + 1 \<le> C" using B C W by linarith
  qed
  have f3: "\<lceil>C\<rceil> < \<lceil>D\<rceil>"
  proof (rule ceiling_gap)
    show "C + 1 \<le> D" using C D W by linarith
  qed
  have f4: "\<lceil>D\<rceil> < \<lceil>E\<rceil>"
  proof (rule ceiling_gap)
    show "D + 1 \<le> E" using D E W by linarith
  qed
  have f5: "\<lceil>E\<rceil> < w"
  proof -
    have "E \<le> W - 1" using E W by linarith
    then have "E \<le> of_int (w - 1)" by (simp add: W_def)
    then have "\<lceil>E\<rceil> \<le> w - 1" by (simp only: ceiling_le_iff)
    then show ?thesis by simp
  qed
  show ?thesis
    unfolding generateExtendedPhases_def Let_def Math_ceil_def A_def [symmetric] B_def [symmetric] C_def [symmetric] D_def [symmetric] E_def [symmetric]
    using f0 f1 f2 f3 f4 f5 by (simp add: js_or_def)
qed

lemma long_term_ordered:
  assumes "33 \<le> w"
  shows "list_all (\<lambda>p. ph_startWeek p \<le> ph_endWeek p) (generateLongTermPhases w)"
proof -
  define W :: rat where "W = of_int w"
  have W: "33 \<le> W" using assms by (simp add: W_def)
  define Q where "Q = js_div (of_int w) 4"
  have "\<bar>Q - W / 4\<bar> \<le> W / 4 / 2 ^ 53"
    unfolding Q_def W_def using assms by (intro js_div_int) simp_all
  moreover have "W / 4 / 2 ^ 53 \<le> W / 4 / 1000" using W by simp
  ultimately have Q: "W / 4 - W / 4 / 1000 \<le> Q" "Q \<le> W / 4 + W / 4 / 1000" by linarith+
  have f0: "1 \<le> \<lfloor>Q\<rfloor>"
  proof -
    have "of_int 1 \<le> Q" using Q W by simp
    then show ?thesis by (simp only: le_floor_iff)
  qed
  have f1: "\<lfloor>Q\<rfloor> * 3 + 1 \<le> w"
  proof -
    have "of_int \<lfloor>Q\<rfloor> \<le> Q" by (rule of_int_floor_le)
    with Q W have "of_int \<lfloor>Q\<rfloor> * 3 + 1 \<le> W" by linarith
    then have "(of_int (\<lfloor>Q\<rfloor> * 3 + 1) :: rat) \<le> of_int w" by (simp add: W_def)
    then show ?thesis by (simp only: of_int_le_iff)
  qed
  show ?thesis
    unfolding generateLongTermPhases_def Let_def Math_floor_def Q_def [symmetric]
    using f0 f1 by simp
qed

text \<open>From two weeks on, no phase of a generated plan ends before it starts.\<close>

lemma phases_ordered_from_two:
  assumes "2 \<le> w"
  shows "list_all (\<lambda>p. ph_startWeek p \<le> ph_endWeek p) (generatePhases (selectPlanType w) w sg)"
proof -
  consider "w \<le> 4" | "5 \<le> w" "w \<le> 8" | "9 \<le> w" "w \<le> 16" | "17 \<le> w" "w \<le> 32" | "33 \<le> w"
    by linarith
  then show ?thesis
  proof cases
    case 1
    with cram_ordered [OF assms] show ?thesis by (simp add: selectPlanType_def)
  next
    case 2
    with short_ordered [of w] show ?thesis by (simp add: selectPlanType_def)
  next
    case 3
    with standard_ordered [of w] show ?thesis by (simp add: selectPlanType_def)
  next
    case 4
    with extended_ordered [of w] show ?thesis by (simp add: selectPlanType_def)
  next
    case 5
    with long_term_ordered [of w] show ?thesis by (simp add: selectPlanType_def)
  qed
qed

text \<open>
  Claim C2 asks that no generated phase has \<open>startWeek > endWeek\<close> for any
  \<open>effectiveWeeks \<ge> 1\<close>, \<open>effectiveWeeks = 1\<close> included. The cram template
  does not treat one week apart from two: at \<open>effectiveWeeks = 1\<close> its second phase starts
  in week 2 and ends in week 1.
\<close>

theorem cram_single_week_inverted:
  "map (\<lambda>p. (ph_startWeek p, ph_endWeek p)) (generatePhases (selectPlanType 1) 1 sg)
     = [(1, 1), (2, 1)] \<and>
   \<not> list_all (\<lambda>p. ph_startWeek p \<le> ph_endWeek p) (generatePhases (selectPlanType 1) 1 sg)"
  by (simp add: selectPlanType_def generateCramPhases_def)

section \<open>Phases are contiguous and cover the weeks\<close>

text \<open>The shape every template has by construction, for every week count.\<close>

lemma generatePhases_shape:
  "generatePhases pt w sg \<noteq> [] \<and>
   ph_startWeek (hd (generatePhases pt w sg)) = 1 \<and>
   contiguous (generatePhases pt w sg) \<and>
   ph_endWeek (last (generatePhases pt w sg)) = w \<and>
   (\<forall>p \<in> set (generatePhases pt w sg).
      learning (ph_contentDistribution p) + practice (ph_contentDistribution p) +
      testing (ph_contentDistribution p) + review (ph_contentDistribution p) = 100)"
  by (cases pt)
    (simp_all add: generateCramPhases_def generateShortPhases_def generateStandardPhases_def
       generateExtendedPhases_def generateLongTermPhases_def Let_def)

lemma contiguous_nth:
  "contiguous ps \<Longrightarrow> Suc k < length ps \<Longrightarrow> ph_endWeek (ps ! k) + 1 = ph_startWeek (ps ! Suc k)"
proof (induction ps arbitrary: k rule: contiguous.induct)
  case (1 p q ps)
  then show ?case by (cases k) simp_all
qed simp_all

lemma contiguous_cover:
  "contiguous ps \<Longrightarrow> ps \<noteq> [] \<Longrightarrow> ph_startWeek (hd ps) \<le> k \<Longrightarrow> k \<le> ph_endWeek (last ps) \<Longrightarrow>
   \<exists>p \<in> set ps. ph_startWeek p \<le> k \<and> k \<le> ph_endWeek p"
proof (induction ps rule: contiguous.induct)
  case (1 p q ps)
  show ?case
  proof (cases "k \<le> ph_endWeek p")
    case True
    with 1 show ?thesis by auto
  next
    case False
    with 1 have "\<exists>p \<in> set (q # ps). ph_startWeek p \<le> k \<and> k \<le> ph_endWeek p" by simp
    then show ?thesis by auto
  qed
qed simp_all

text \<open>
  Claim C3. The phases generated for \<open>effectiveWeeks\<close> and its plan type are contiguous
  and cover the weeks: the first phase starts at week 1, each phase ends one week before
  the next one starts, the last phase ends at \<open>effectiveWeeks\<close>; and the four percentages
  of each phase's content distribution sum to 100.
\<close>

theorem generatePhases_contiguous:
  assumes "ps = generatePhases (selectPlanType w) w sg"
  shows "ps \<noteq> [] \<and> ph_startWeek (hd ps) = 1 \<and>
         (\<forall>k. Suc k < length ps \<longrightarrow> ph_endWeek (ps ! k) + 1 = ph_startWeek (ps ! Suc k)) \<and>
         ph_endWeek (last ps) = w \<and>
         (\<forall>p \<in> set ps.
            learning (ph_contentDistribution p) + practice (ph_contentDistribution p) +
            testing (ph_contentDistribution p) + review (ph_contentDistribution p) = 100)"
  unfolding assms
  using generatePhases_shape [of "selectPlanType w" w sg] contiguous_nth
  by blast

theorem generatePhases_contiguous_witness:
  "ph_startWeek (hd (generatePhases (selectPlanType 1) 1 (calculateScoreGap 1000 1100))) = 1 \<and>
   ph_endWeek (last (generatePhases (selectPlanType 1) 1 (calculateScoreGap 1000 1100))) = 1 \<and>
   ph_endWeek (last (generatePhases (selectPlanType 40) 40 (calculateScoreGap 1000 1100))) = 40"
  using generatePhases_contiguous [OF refl, of 1 "calculateScoreGap 1000 1100"]
    generatePhases_contiguous [OF refl, of 40 "calculateScoreGap 1000 1100"]
  by simp

section \<open>One weekly plan per week\<close>

lemma weeklyPlanOf_fields:
  "wp_weekNumber (weeklyPlanOf phase week totalWeeks t) = week"
  "wp_phase (weeklyPlanOf phase week totalWeeks t) = ph_name phase"
  by (simp_all add: weeklyPlanOf_def Let_def)

text \<open>When every week from \<open>week\<close> on has an owning phase, the loop skips none of them.\<close>

lemma weeklyPlansLoop_owned:
  assumes "\<forall>k. week \<le> k \<and> k \<le> totalWeeks \<longrightarrow>
             (\<exists>p \<in> set phases. ph_startWeek p \<le> k \<and> k \<le> ph_endWeek p)"
  shows "map wp_weekNumber (weeklyPlansLoop phases totalWeeks t week) = [week..totalWeeks] \<and>
         (\<forall>pl \<in> set (weeklyPlansLoop phases totalWeeks t week).
            \<exists>ph \<in> set phases. wp_phase pl = ph_name ph \<and>
              ph_startWeek ph \<le> wp_weekNumber pl \<and> wp_weekNumber pl \<le> ph_endWeek ph)"
  using assms
proof (induction phases totalWeeks t week rule: weeklyPlansLoop.induct)
  case (1 phases totalWeeks t week)
  show ?case
  proof (cases "week \<le> totalWeeks")
    case False
    then show ?thesis by (subst (1 2) weeklyPlansLoop.simps) simp
  next
    case True
    let ?P = "\<lambda>p. ph_startWeek p \<le> week \<and> week \<le> ph_endWeek p"
    from "1.prems" True have "\<exists>p \<in> set phases. ?P p" by simp
    then obtain phase where f: "find ?P phases = Some phase"
      by (cases "find ?P phases") (auto simp: find_None_iff)
    then have ph: "phase \<in> set phases" "?P phase"
      by (auto simp: find_Some_iff)
    have rest: "\<forall>k. week + 1 \<le> k \<and> k \<le> totalWeeks \<longrightarrow>
             (\<exists>p \<in> set phases. ph_startWeek p \<le> k \<and> k \<le> ph_endWeek p)"
      using "1.prems" by simp
    note IH = "1.IH"(2) [OF True f rest]
    have unfold: "weeklyPlansLoop phases totalWeeks t week =
        weeklyPlanOf phase week totalWeeks t # weeklyPlansLoop phases totalWeeks t (week + 1)"
      using True f by (subst weeklyPlansLoop.simps) simp
    have up: "[week..totalWeeks] = week # [week + 1..totalWeeks]"
      using True by (simp add: upto_rec1)
    show ?thesis
      unfolding unfold up using IH ph by (auto simp: weeklyPlanOf_fields)
  qed
qed

text \<open>
  Claim C4. For \<open>effectiveWeeks \<ge> 1\<close> and the phases generated for it,
  \<open>generateWeeklyPlans\<close> returns exactly \<open>effectiveWeeks\<close> weekly plans, numbered
  1 to \<open>effectiveWeeks\<close> in order, each carrying the name of a phase whose inclusive span
  contains its week; the result is not empty and no week is skipped.
\<close>

theorem generateWeeklyPlans_covers:
  assumes "1 \<le> w" and "ps = generatePhases (selectPlanType w) w sg"
    and "plans = generateWeeklyPlans ps w t"
  shows "map wp_weekNumber plans = [1..w] \<and> length plans = nat w \<and> plans \<noteq> [] \<and>
         (\<forall>pl \<in> set plans. \<exists>ph \<in> set ps. wp_phase pl = ph_name ph \<and>
            ph_startWeek ph \<le> wp_weekNumber pl \<and> wp_weekNumber pl \<le> ph_endWeek ph)"
proof -
  have shape: "ps \<noteq> []" "ph_startWeek (hd ps) = 1" "contiguous ps" "ph_endWeek (last ps) = w"
    unfolding assms(2) using generatePhases_shape [of "selectPlanType w" w sg] by simp_all
  have own: "\<forall>k. 1 \<le> k \<and> k \<le> w \<longrightarrow> (\<exists>p \<in> set ps. ph_startWeek p \<le> k \<and> k \<le> ph_endWeek p)"
    using contiguous_cover [OF shape(3) shape(1)] shape(2,4) by simp
  from weeklyPlansLoop_owned [OF own, of t]
  have m: "map wp_weekNumber plans = [1..w]"
    and o: "\<forall>pl \<in> set plans. \<exists>ph \<in> set ps. wp_phase pl = ph_name ph \<and>
            ph_startWeek ph \<le> wp_weekNumber pl \<and> wp_weekNumber pl \<le> ph_endWeek ph"
    unfolding assms(3) generateWeeklyPlans_def by simp_all
  have "length (map wp_weekNumber plans) = length [1..w]" using m by simp
  then have l: "length plans = nat w" by simp
  then have "plans \<noteq> []" using assms(1) by auto
  with m l o show ?thesis by simp
qed

theorem generateWeeklyPlans_covers_witness:
  "map wp_weekNumber
     (generateWeeklyPlans (generatePhases (selectPlanType 1) 1 (calculateScoreGap 1000 1100)) 1 One)
     = [1] \<and>
   map wp_weekNumber
     (generateWeeklyPlans (generatePhases (selectPlanType 3) 3 (calculateScoreGap 1000 1100)) 3 One)
     = [1, 2, 3]"
proof -
  have u: "[1..1] = [1::int]" "[1..3] = [1, 2, 3::int]" by (simp_all add: upto_rec1)
  show ?thesis
    using generateWeeklyPlans_covers [OF _ refl refl, of 1 "calculateScoreGap 1000 1100" One]
      generateWeeklyPlans_covers [OF _ refl refl, of 3 "calculateScoreGap 1000 1100" One]
    by (simp add: u)
qed

section \<open>The single-week plan\<close>





end
